theory Spec2Isabelle
  imports Complex_Main
begin

section \<open>Operators, measurements and tapes\<close>

text \<open>
  The circuit-cutting pipeline of \<^verbatim>\<open>pennylane/qcut.py\<close>. Python objects are compared by
  identity throughout the pipeline (graph nodes, dictionary keys, \<^verbatim>\<open>p is prep_op\<close>), so every
  operation and every measurement process carries its identity as a number. Wire labels are
  integers. A Python exception is a value of type \<open>error\<close>; a function that may raise returns
  \<open>error + 'a\<close>.
\<close>

type_synonym wire = int
type_synonym ident = nat

datatype error =
    UnboundLocalError
  | KeyError
  | IndexError
  | TypeError
  | AssertionError
  | ValueError string

datatype return_type = Expectation | Variance | Sample | Probability | State

datatype obs_class = Identity | PauliX | PauliY | PauliZ | Hadamard | OtherObservable string

record observable =
  obs_class :: obs_class
  obs_wires :: "wire list"

text \<open>
  Modelled from the spec: \<^verbatim>\<open>Wires.all_wires\<close> (the union of wire lists, each label kept at
  its first occurrence), \<^verbatim>\<open>Tensor\<close>, \<^verbatim>\<open>MeasurementProcess\<close> and \<^verbatim>\<open>QuantumTape\<close> are classes of
  the library outside \<^verbatim>\<open>qcut.py\<close>; they are modelled as the tape contract describes them.
\<close>

definition first_occurrences :: "'a list \<Rightarrow> 'a list" where
  "first_occurrences xs = foldl (\<lambda>acc x. if x \<in> set acc then acc else acc @ [x]) [] xs"

definition all_wires :: "wire list list \<Rightarrow> wire list" where
  "all_wires ws = foldl (\<lambda>acc w. if w \<in> set acc then acc else acc @ [w]) [] (concat ws)"

datatype obs = Single observable | Tensor "observable list"

fun wires_of_obs :: "obs \<Rightarrow> wire list" where
  "wires_of_obs (Single ob) = obs_wires ob"
| "wires_of_obs (Tensor obs) = all_wires (map obs_wires obs)"

record measurement =
  m_id :: ident
  return_type :: return_type
  m_obs :: "obs option"
  m_wires_attr :: "wire list"

definition m_wires :: "measurement \<Rightarrow> wire list" where
  "m_wires m = (case m_obs m of Some ob \<Rightarrow> wires_of_obs ob | None \<Rightarrow> m_wires_attr m)"

text \<open>
  The terms of a measure node are observable classes, applied to the node's wires; the terms
  of a prepare node are callables that queue gates on the node's wires, modelled as the list
  of the gate classes they apply.
\<close>

type_synonym prep_term = "string list"

definition prep_zero_state :: prep_term where "prep_zero_state = [''Identity'']"
definition prep_one_state :: prep_term where "prep_one_state = [''PauliX'']"
definition prep_plus_state :: prep_term where "prep_plus_state = [''Hadamard'']"
definition prep_iplus_state :: prep_term where "prep_iplus_state = [''Hadamard'', ''S'']"

definition PREPARE_SETTINGS :: "prep_term list" where
  "PREPARE_SETTINGS = [prep_zero_state, prep_one_state, prep_plus_state, prep_iplus_state]"

definition MEASURE_SETTINGS :: "obs_class list" where
  "MEASURE_SETTINGS = [Identity, PauliX, PauliY, PauliZ]"

datatype op_class =
    Gate string
  | WireCut
  | MeasureNode "obs_class list option"
  | PrepareNode "prep_term list option"
  | SimpleMeasureNode
  | SimplePrepareNode

record operation =
  op_id :: ident
  op_class :: op_class
  op_wires :: "wire list"

fun is_WireCut :: "op_class \<Rightarrow> bool" where
  "is_WireCut WireCut = True"
| "is_WireCut _ = False"

fun is_MeasureNode :: "op_class \<Rightarrow> bool" where
  "is_MeasureNode (MeasureNode _) = True"
| "is_MeasureNode SimpleMeasureNode = True"
| "is_MeasureNode _ = False"

fun is_PrepareNode :: "op_class \<Rightarrow> bool" where
  "is_PrepareNode (PrepareNode _) = True"
| "is_PrepareNode SimplePrepareNode = True"
| "is_PrepareNode _ = False"

fun measure_terms :: "op_class \<Rightarrow> obs_class list option" where
  "measure_terms (MeasureNode ts) = ts"
| "measure_terms SimpleMeasureNode = Some MEASURE_SETTINGS"
| "measure_terms _ = None"

fun prepare_terms :: "op_class \<Rightarrow> prep_term list option" where
  "prepare_terms (PrepareNode ts) = ts"
| "prepare_terms SimplePrepareNode = Some PREPARE_SETTINGS"
| "prepare_terms _ = None"

record tape =
  operations :: "operation list"
  measurements :: "measurement list"

definition tape_wires :: "tape \<Rightarrow> wire list" where
  "tape_wires t = all_wires (map op_wires (operations t) @ map m_wires (measurements t))"

section \<open>Circuit graphs\<close>

text \<open>
  Modelled from the spec: the \<^verbatim>\<open>MultiDiGraph\<close> of networkx. Nodes are kept in insertion order
  with their \<^verbatim>\<open>order\<close> attribute, edges in insertion order as (source, target, wire) with the
  endpoints given by identity. The pipeline only ever removes the last edge between two
  nodes or all edges of a node, so the successors of a node, its predecessors and the edge
  view are read off the edge list. Adding an edge from \<^verbatim>\<open>None\<close> raises.
\<close>

datatype node = Op operation | Meas measurement

fun node_id :: "node \<Rightarrow> ident" where
  "node_id (Op x) = op_id x"
| "node_id (Meas m) = m_id m"

fun node_wires :: "node \<Rightarrow> wire list" where
  "node_wires (Op x) = op_wires x"
| "node_wires (Meas m) = m_wires m"

record graph =
  g_nodes :: "(node \<times> rat) list"
  g_edges :: "(ident \<times> ident \<times> wire) list"

definition empty_graph :: graph where
  "empty_graph = \<lparr>g_nodes = [], g_edges = []\<rparr>"

definition node_ids :: "graph \<Rightarrow> ident list" where
  "node_ids g = map (node_id \<circ> fst) (g_nodes g)"

definition add_node :: "node \<Rightarrow> rat \<Rightarrow> graph \<Rightarrow> graph" where
  "add_node n ord g =
     (if node_id n \<in> set (node_ids g)
      then g\<lparr>g_nodes := map (\<lambda>(n', o'). if node_id n' = node_id n then (n', ord) else (n', o'))
                              (g_nodes g)\<rparr>
      else g\<lparr>g_nodes := g_nodes g @ [(n, ord)]\<rparr>)"

definition add_edge :: "ident option \<Rightarrow> ident \<Rightarrow> wire \<Rightarrow> graph \<Rightarrow> error + graph" where
  "add_edge u v w g =
     (case u of
        None \<Rightarrow> Inl (ValueError ''None cannot be a node'')
      | Some u' \<Rightarrow> Inr (g\<lparr>g_edges := g_edges g @ [(u', v, w)]\<rparr>))"

section \<open>Lifting a tape to a graph\<close>

text \<open>
  \<^verbatim>\<open>tape_to_graph\<close>. The first loop binds \<^verbatim>\<open>order\<close> only when it runs at least once; the
  statement \<^verbatim>\<open>order += 1\<close> after it reads the variable.
\<close>

definition op_wire_step ::
  "ident \<Rightarrow> graph \<times> (wire \<rightharpoonup> ident) \<Rightarrow> wire \<Rightarrow> graph \<times> (wire \<rightharpoonup> ident)" where
  "op_wire_step v s w =
     (case s of (g, latest) \<Rightarrow>
        ((case latest w of
            None \<Rightarrow> g
          | Some p \<Rightarrow> g\<lparr>g_edges := g_edges g @ [(p, v, w)]\<rparr>),
         latest(w \<mapsto> v)))"

fun ops_loop ::
  "nat \<Rightarrow> operation list \<Rightarrow> graph \<times> (wire \<rightharpoonup> ident) \<Rightarrow> graph \<times> (wire \<rightharpoonup> ident)" where
  "ops_loop k [] s = s"
| "ops_loop k (x # xs) s =
     (case s of (g, latest) \<Rightarrow>
        ops_loop (Suc k) xs
          (foldl (op_wire_step (op_id x)) (add_node (Op x) (of_nat k) g, latest) (op_wires x)))"

fun meas_edges :: "ident \<Rightarrow> (wire \<rightharpoonup> ident) \<Rightarrow> wire list \<Rightarrow> graph \<Rightarrow> error + graph" where
  "meas_edges v latest [] g = Inr g"
| "meas_edges v latest (w # ws) g =
     (case add_edge (latest w) v w g of
        Inl e \<Rightarrow> Inl e
      | Inr g' \<Rightarrow> meas_edges v latest ws g')"

text \<open>The state of the second loop: the graph, \<^verbatim>\<open>order\<close>, and the next fresh identity.\<close>

fun factor_loop ::
  "return_type \<Rightarrow> (wire \<rightharpoonup> ident) \<Rightarrow> observable list \<Rightarrow> graph \<times> nat \<times> ident
     \<Rightarrow> error + (graph \<times> nat \<times> ident)" where
  "factor_loop rt latest [] s = Inr s"
| "factor_loop rt latest (ob # obs) s =
     (case s of (g, ord, nid) \<Rightarrow>
        (let m' = \<lparr>m_id = nid, return_type = rt, m_obs = Some (Single ob), m_wires_attr = []\<rparr>
         in case meas_edges nid latest (obs_wires ob) (add_node (Meas m') (of_nat ord) g) of
              Inl e \<Rightarrow> Inl e
            | Inr g' \<Rightarrow> factor_loop rt latest obs (g', Suc ord, Suc nid)))"

fun meas_loop ::
  "(wire \<rightharpoonup> ident) \<Rightarrow> measurement list \<Rightarrow> graph \<times> nat \<times> ident
     \<Rightarrow> error + (graph \<times> nat \<times> ident)" where
  "meas_loop latest [] s = Inr s"
| "meas_loop latest (m # ms) s =
     (case s of (g, ord, nid) \<Rightarrow>
        (case m_obs m of
           Some (Tensor obs) \<Rightarrow>
             (case factor_loop (return_type m) latest obs s of
                Inl e \<Rightarrow> Inl e
              | Inr s' \<Rightarrow> meas_loop latest ms s')
         | _ \<Rightarrow>
             (case meas_edges (m_id m) latest (m_wires m) (add_node (Meas m) (of_nat ord) g) of
                Inl e \<Rightarrow> Inl e
              | Inr g' \<Rightarrow> meas_loop latest ms (g', Suc ord, nid))))"

definition fresh_ident :: "ident list \<Rightarrow> ident" where
  "fresh_ident ids = Suc (foldr max ids 0)"

definition tape_idents :: "tape \<Rightarrow> ident list" where
  "tape_idents t = map op_id (operations t) @ map m_id (measurements t)"

definition tape_to_graph :: "tape \<Rightarrow> error + graph" where
  "tape_to_graph t =
     (case ops_loop 0 (operations t) (empty_graph, Map.empty) of (g, latest) \<Rightarrow>
        if operations t = [] then Inl UnboundLocalError
        else
          (case meas_loop latest (measurements t)
                  (g, length (operations t), fresh_ident (tape_idents t)) of
             Inl e \<Rightarrow> Inl e
           | Inr (g', _, _) \<Rightarrow> Inr g'))"

section \<open>Expanding a fragment tape into configurations\<close>

text \<open>
  \<^verbatim>\<open>expand_fragment_tapes\<close>. \<^verbatim>\<open>itertools.product\<close> of several lists is \<open>product_lists\<close> (the
  first list varies slowest), of two lists \<open>List.product\<close>. A dictionary comprehension keeps
  the last value given for a key.
\<close>

definition dict_of :: "('k \<times> 'v) list \<Rightarrow> ('k \<rightharpoonup> 'v)" where
  "dict_of kvs = map_of (rev kvs)"

fun map_result :: "('a \<Rightarrow> error + 'b) \<Rightarrow> 'a list \<Rightarrow> error + 'b list" where
  "map_result f [] = Inr []"
| "map_result f (x # xs) =
     (case f x of
        Inl e \<Rightarrow> Inl e
      | Inr y \<Rightarrow> (case map_result f xs of Inl e \<Rightarrow> Inl e | Inr ys \<Rightarrow> Inr (y # ys)))"

definition prepare_nodes_of :: "tape \<Rightarrow> operation list" where
  "prepare_nodes_of t = filter (\<lambda>x. is_PrepareNode (op_class x)) (operations t)"

definition measure_nodes_of :: "tape \<Rightarrow> operation list" where
  "measure_nodes_of t = filter (\<lambda>x. is_MeasureNode (op_class x)) (operations t)"

text \<open>
  \<^verbatim>\<open>product(*terms)\<close> raises a type error when the terms of a node are \<^verbatim>\<open>None\<close> (a placeholder
  node built without parameters).
\<close>

definition terms_product :: "'a list option list \<Rightarrow> error + 'a list list" where
  "terms_product ts =
     (if None \<in> set ts then Inl TypeError else Inr (product_lists (map the ts)))"

text \<open>The gates a prepare term queues on the wires of its node, each a new object.\<close>

definition apply_prep :: "prep_term \<Rightarrow> wire list \<Rightarrow> ident \<Rightarrow> operation list" where
  "apply_prep term ws nid =
     map (\<lambda>(k, g). \<lparr>op_id = nid + k, op_class = Gate g, op_wires = ws\<rparr>) (enumerate 0 term)"

text \<open>
  The loop over \<^verbatim>\<open>tape.operations\<close> inside the recording context. The state is the queue of
  the new tape, the list \<^verbatim>\<open>meas\<close> and the next fresh identity.
\<close>

fun record_ops ::
  "(ident \<rightharpoonup> prep_term) \<Rightarrow> operation list \<Rightarrow> operation list \<times> operation list \<times> ident
     \<Rightarrow> error + (operation list \<times> operation list \<times> ident)" where
  "record_ops pm [] s = Inr s"
| "record_ops pm (x # xs) s =
     (case s of (queue, meas, nid) \<Rightarrow>
        if is_PrepareNode (op_class x) then
          (case pm (op_id x) of
             None \<Rightarrow> Inl KeyError
           | Some term \<Rightarrow>
               record_ops pm xs (queue @ apply_prep term (op_wires x) nid, meas, nid + length term))
        else if is_MeasureNode (op_class x) then record_ops pm xs (queue, meas @ [x], nid)
        else record_ops pm xs (queue @ [x], meas, nid))"

definition cut_observable :: "(ident \<rightharpoonup> obs_class) \<Rightarrow> operation \<Rightarrow> error + observable" where
  "cut_observable mm x =
     (case mm (op_id x) of
        None \<Rightarrow> Inl KeyError
      | Some c \<Rightarrow> Inr \<lparr>obs_class = c, obs_wires = op_wires x\<rparr>)"

definition first_wire :: "observable \<Rightarrow> error + (wire \<times> observable)" where
  "first_wire ob = (case obs_wires ob of [] \<Rightarrow> Inl IndexError | w # _ \<Rightarrow> Inr (w, ob))"

text \<open>
  \<^verbatim>\<open>sorted\<close> on pairs (wire, observable): two pairs with the same wire are ordered by their
  observables, which have no order, so the comparison raises. The factors of one tensor
  are taken to be different objects.
\<close>

definition py_sorted :: "(wire \<times> observable) list \<Rightarrow> error + (wire \<times> observable) list" where
  "py_sorted xs = (if distinct (map fst xs) then Inr (sort_key fst xs) else Inl TypeError)"

definition full_tensor :: "observable list \<Rightarrow> observable list \<Rightarrow> error + obs" where
  "full_tensor cut_obs user =
     (case map_result first_wire cut_obs of
        Inl e \<Rightarrow> Inl e
      | Inr op_tensor_wires \<Rightarrow>
          (case map_result first_wire user of
             Inl e \<Rightarrow> Inl e
           | Inr m_obs_wires \<Rightarrow>
               (case py_sorted (op_tensor_wires @ m_obs_wires) of
                  Inl e \<Rightarrow> Inl e
                | Inr sorted_wires \<Rightarrow> Inr (Tensor (map snd sorted_wires)))))"

text \<open>The body of the loop over \<^verbatim>\<open>tape.measurements\<close>, up to the call of \<^verbatim>\<open>expval\<close>.\<close>

definition user_observable :: "observable list \<Rightarrow> measurement \<Rightarrow> error + obs" where
  "user_observable cut_obs m =
     (if return_type m \<noteq> Expectation
      then Inl (ValueError ''Only expectation values supported for now'')
      else
        (case m_obs m of
           Some (Tensor terms) \<Rightarrow>
             if list_all (\<lambda>t. obs_class t \<in> set [Identity, PauliX, PauliY, PauliY]) terms
             then full_tensor cut_obs terms
             else Inl (ValueError ''Only tensor products of Paulis for now'')
         | Some (Single ob) \<Rightarrow>
             if obs_class ob \<in> set [Identity, PauliX, PauliY, PauliZ]
             then full_tensor cut_obs [ob]
             else Inl (ValueError ''Only tensor products of Paulis for now'')
         | None \<Rightarrow> Inl (ValueError ''Only tensor products of Paulis for now'')))"

definition expval :: "ident \<Rightarrow> obs \<Rightarrow> measurement" where
  "expval nid ob = \<lparr>m_id = nid, return_type = Expectation, m_obs = Some ob, m_wires_attr = []\<rparr>"

fun user_expvals :: "observable list \<Rightarrow> measurement list \<Rightarrow> ident \<Rightarrow> error + measurement list" where
  "user_expvals cut_obs [] nid = Inr []"
| "user_expvals cut_obs (m # ms) nid =
     (case user_observable cut_obs m of
        Inl e \<Rightarrow> Inl e
      | Inr ob \<Rightarrow>
          (case user_expvals cut_obs ms (Suc nid) of
             Inl e \<Rightarrow> Inl e
           | Inr es \<Rightarrow> Inr (expval nid ob # es)))"

text \<open>One pass of the loop over the configurations: the tape of one configuration.\<close>

definition config_tape ::
  "tape \<Rightarrow> ident \<Rightarrow> prep_term list \<Rightarrow> obs_class list \<Rightarrow> error + (tape \<times> ident)" where
  "config_tape t nid prepare_settings measure_settings =
     (let prepare_mapping = dict_of (zip (map op_id (prepare_nodes_of t)) prepare_settings);
          measure_mapping = dict_of (zip (map op_id (measure_nodes_of t)) measure_settings)
      in case record_ops prepare_mapping (operations t) ([], [], nid) of
           Inl e \<Rightarrow> Inl e
         | Inr (queue, meas, nid1) \<Rightarrow>
             (case map_result (cut_observable measure_mapping) meas of
                Inl e \<Rightarrow> Inl e
              | Inr op_tensor \<Rightarrow>
                  if measurements t \<noteq> [] then
                    (case user_expvals op_tensor (measurements t) nid1 of
                       Inl e \<Rightarrow> Inl e
                     | Inr es \<Rightarrow>
                         Inr (\<lparr>operations = queue, measurements = es\<rparr>, nid1 + length es))
                  else if op_tensor \<noteq> [] then
                    Inr (\<lparr>operations = queue, measurements = [expval nid1 (Tensor op_tensor)]\<rparr>,
                         Suc nid1)
                  else
                    (case tape_wires t of
                       [] \<Rightarrow> Inl IndexError
                     | w # _ \<Rightarrow>
                         Inr (\<lparr>operations = queue,
                               measurements =
                                 [expval nid1 (Single \<lparr>obs_class = Identity, obs_wires = [w]\<rparr>)]\<rparr>,
                              Suc nid1))))"

fun configs_loop ::
  "tape \<Rightarrow> (prep_term list \<times> obs_class list) list \<Rightarrow> ident \<Rightarrow> error + tape list" where
  "configs_loop t [] nid = Inr []"
| "configs_loop t (c # cs) nid =
     (case config_tape t nid (fst c) (snd c) of
        Inl e \<Rightarrow> Inl e
      | Inr (tp, nid') \<Rightarrow>
          (case configs_loop t cs nid' of
             Inl e \<Rightarrow> Inl e
           | Inr tps \<Rightarrow> Inr (tp # tps)))"

definition expand_fragment_tapes ::
  "tape \<Rightarrow> error + (tape list \<times> operation list \<times> operation list)" where
  "expand_fragment_tapes t =
     (let prepare_nodes = prepare_nodes_of t;
          measure_nodes = measure_nodes_of t
      in case terms_product (map (\<lambda>p. prepare_terms (op_class p)) prepare_nodes) of
           Inl e \<Rightarrow> Inl e
         | Inr prepare_combinations \<Rightarrow>
             (case terms_product (map (\<lambda>m. measure_terms (op_class m)) measure_nodes) of
                Inl e \<Rightarrow> Inl e
              | Inr measure_combinations \<Rightarrow>
                  (case configs_loop t (List.product prepare_combinations measure_combinations)
                          (fresh_ident (tape_idents t)) of
                     Inl e \<Rightarrow> Inl e
                   | Inr tapes \<Rightarrow> Inr (tapes, prepare_nodes, measure_nodes))))"

subsection \<open>Fragment tapes the expander accepts\<close>

text \<open>
  A sufficient condition for \<^verbatim>\<open>expand_fragment_tapes\<close> to return: every placeholder node has
  terms, and either the tape has no user measurement (and a measure node or a wire), or every
  user measurement passes the checks of the loop over \<^verbatim>\<open>tape.measurements\<close> and gives sort
  keys (first wires) that differ from each other and from those of the measure nodes.
\<close>

definition cut_keys :: "tape \<Rightarrow> wire list" where
  "cut_keys t = map (\<lambda>x. hd (op_wires x)) (measure_nodes_of t)"

definition accepted :: "tape \<Rightarrow> measurement \<Rightarrow> bool" where
  "accepted t m =
     (return_type m = Expectation \<and>
      (case m_obs m of
         Some (Single ob) \<Rightarrow>
           obs_class ob \<in> set [Identity, PauliX, PauliY, PauliZ] \<and> obs_wires ob \<noteq> [] \<and>
           hd (obs_wires ob) \<notin> set (cut_keys t)
       | Some (Tensor terms) \<Rightarrow>
           list_all (\<lambda>ob. obs_class ob \<in> set [Identity, PauliX, PauliY] \<and> obs_wires ob \<noteq> []) terms \<and>
           distinct (cut_keys t @ map (\<lambda>ob. hd (obs_wires ob)) terms)
       | None \<Rightarrow> False))"

definition expandable :: "tape \<Rightarrow> bool" where
  "expandable t =
     (list_all (\<lambda>x. prepare_terms (op_class x) \<noteq> None) (prepare_nodes_of t) \<and>
      list_all (\<lambda>x. measure_terms (op_class x) \<noteq> None) (measure_nodes_of t) \<and>
      (if measurements t = [] then measure_nodes_of t \<noteq> [] \<or> tape_wires t \<noteq> []
       else list_all (\<lambda>x. op_wires x \<noteq> []) (measure_nodes_of t) \<and> distinct (cut_keys t) \<and>
            list_all (accepted t) (measurements t)))"

subsection \<open>Example fragment tapes\<close>

definition pauli :: "obs_class \<Rightarrow> wire \<Rightarrow> observable" where
  "pauli c w = \<lparr>obs_class = c, obs_wires = [w]\<rparr>"

definition gate :: "ident \<Rightarrow> string \<Rightarrow> wire list \<Rightarrow> operation" where
  "gate i g ws = \<lparr>op_id = i, op_class = Gate g, op_wires = ws\<rparr>"

text \<open>\<^verbatim>\<open>Hadamard(0); expval(PauliZ(0) @ PauliX(1))\<close>\<close>

definition zx_tensor_tape :: tape where
  "zx_tensor_tape =
     \<lparr>operations = [gate 0 ''Hadamard'' [0]],
      measurements = [expval 1 (Tensor [pauli PauliZ 0, pauli PauliX 1])]\<rparr>"

text \<open>\<^verbatim>\<open>Hadamard(0); PauliX(1); expval(PauliZ(0)); expval(PauliZ(1))\<close>\<close>

definition two_expvals_tape :: tape where
  "two_expvals_tape =
     \<lparr>operations = [gate 0 ''Hadamard'' [0], gate 1 ''PauliX'' [1]],
      measurements = [expval 2 (Single (pauli PauliZ 0)), expval 3 (Single (pauli PauliZ 1))]\<rparr>"


section \<open>Assembling the fragment tensors\<close>

text \<open>
  Modelled from the spec: the arrays of numpy. An array is its shape and its entries in
  row-major order; the entries are real numbers (the rounding of floating point is not
  modelled). \<^verbatim>\<open>stack\<close> needs at least one array and arrays of one shape, \<^verbatim>\<open>reshape\<close> needs
  the sizes to agree; both raise otherwise. A simulator result is a one-dimensional array.
\<close>

record ndarray =
  nd_shape :: "nat list"
  nd_data :: "real list"

definition stack :: "real list list \<Rightarrow> error + ndarray" where
  "stack rs =
     (case rs of
        [] \<Rightarrow> Inl (ValueError ''need at least one array to stack'')
      | r # _ \<Rightarrow>
          if list_all (\<lambda>r'. length r' = length r) rs
          then Inr \<lparr>nd_shape = [length rs, length r], nd_data = concat rs\<rparr>
          else Inl (ValueError ''all input arrays must have the same shape''))"

definition reshape :: "nat list \<Rightarrow> ndarray \<Rightarrow> error + ndarray" where
  "reshape target a =
     (if prod_list target = length (nd_data a) then Inr \<lparr>nd_shape = target, nd_data = nd_data a\<rparr>
      else Inl (ValueError ''cannot reshape array''))"

definition flat_index :: "nat list \<Rightarrow> nat list \<Rightarrow> nat" where
  "flat_index sh idx = foldl (\<lambda>acc (d, i). acc * d + i) 0 (zip sh idx)"

definition indices :: "nat list \<Rightarrow> nat list list" where
  "indices sh = product_lists (map (\<lambda>d. [0..<d]) sh)"

definition nd_get :: "ndarray \<Rightarrow> nat list \<Rightarrow> real" where
  "nd_get a idx = nd_data a ! flat_index (nd_shape a) idx"

text \<open>
  \<^verbatim>\<open>tensordot(C, a, axes=[1, i])\<close> for a matrix \<open>C\<close>: axis 1 of \<open>C\<close> is summed against axis
  \<open>i\<close> of \<open>a\<close>; the result has the free axis of \<open>C\<close> first and then the remaining axes of
  \<open>a\<close> in their order.
\<close>

definition tensordot :: "real list list \<Rightarrow> ndarray \<Rightarrow> nat \<Rightarrow> ndarray" where
  "tensordot C a i =
     (let sh = length C # take i (nd_shape a) @ drop (Suc i) (nd_shape a)
      in \<lparr>nd_shape = sh,
          nd_data =
            map (\<lambda>idx. \<Sum>c\<leftarrow>[0..<nd_shape a ! i].
                          C ! hd idx ! c * nd_get a (take i (tl idx) @ [c] @ drop i (tl idx)))
                (indices sh)\<rparr>)"

definition CHANGE_OF_BASIS_MAT :: "real list list" where
  "CHANGE_OF_BASIS_MAT = [[1, 1, 0, 0], [-1, -1, 2, 0], [-1, -1, 0, 2], [1, -1, 0, 0]]"

definition scale_factor :: "nat \<Rightarrow> real" where
  "scale_factor n = 2 powr (- real n / 2)"

text \<open>The body of the loop of \<^verbatim>\<open>_get_tensors\<close> for one fragment.\<close>

definition fragment_tensor :: "real list list \<Rightarrow> nat \<Rightarrow> nat \<Rightarrow> error + ndarray" where
  "fragment_tensor rs n_prep n_meas =
     (case stack rs of
        Inl e \<Rightarrow> Inl e
      | Inr a \<Rightarrow>
          (case reshape (replicate (n_prep + n_meas) 4) a of
             Inl e \<Rightarrow> Inl e
           | Inr b \<Rightarrow>
               Inr (foldl (tensordot CHANGE_OF_BASIS_MAT)
                      (b\<lparr>nd_data := map (\<lambda>x. x * scale_factor (n_meas + n_prep)) (nd_data b)\<rparr>)
                      [0..<n_prep])))"

fun get_tensors_loop ::
  "real list list \<Rightarrow> nat \<Rightarrow> (nat \<times> operation list \<times> operation list) list
     \<Rightarrow> error + ndarray list" where
  "get_tensors_loop results ctr [] = Inr []"
| "get_tensors_loop results ctr ((s, p, m) # rest) =
     (case fragment_tensor (take s (drop ctr results)) (length p) (length m) of
        Inl e \<Rightarrow> Inl e
      | Inr a \<Rightarrow>
          (case get_tensors_loop results (ctr + s) rest of
             Inl e \<Rightarrow> Inl e
           | Inr as \<Rightarrow> Inr (a # as)))"

definition get_tensors ::
  "real list list \<Rightarrow> nat list \<Rightarrow> operation list list \<Rightarrow> operation list list
     \<Rightarrow> error + ndarray list" where
  "get_tensors results shapes prepare_nodes measure_nodes =
     get_tensors_loop results 0 (zip shapes (zip prepare_nodes measure_nodes))"

section \<open>Contracting the tensor network\<close>

text \<open>
  The communication graph: the fragment indices and, in insertion order, the edges
  (start fragment, end fragment, pair), the pair given by the identities of the measure and
  the prepare node. The predecessors of a node are grouped by source, the sources in the
  order of their first edge; likewise the successors.
\<close>

record comm_graph =
  cg_nodes :: "nat list"
  cg_edges :: "(nat \<times> nat \<times> ident \<times> ident) list"

definition pred_pairs :: "comm_graph \<Rightarrow> nat \<Rightarrow> (ident \<times> ident) list" where
  "pred_pairs cg v =
     (let into = filter (\<lambda>(a, b, _). b = v) (cg_edges cg)
      in concat (map (\<lambda>u. map (\<lambda>(_, _, pr). pr) (filter (\<lambda>(a, _, _). a = u) into))
                     (first_occurrences (map fst into))))"

definition succ_pairs :: "comm_graph \<Rightarrow> nat \<Rightarrow> (ident \<times> ident) list" where
  "succ_pairs cg u =
     (let out = filter (\<lambda>(a, b, _). a = u) (cg_edges cg)
      in concat (map (\<lambda>v. map (\<lambda>(_, _, pr). pr) (filter (\<lambda>(_, b, _). b = v) out))
                     (first_occurrences (map (\<lambda>(_, b, _). b) out))))"

text \<open>
  The two loops of \<^verbatim>\<open>_contract_tensors\<close>. A symbol is the number passed to
  \<^verbatim>\<open>oe.get_symbol\<close>. The state is \<^verbatim>\<open>ctr\<close>, \<^verbatim>\<open>tensor_indxs\<close> and \<^verbatim>\<open>meas_map\<close>.
\<close>

type_synonym index_state = "nat \<times> nat list list \<times> (ident \<rightharpoonup> nat)"

definition prep_symbol :: "nat \<Rightarrow> ident \<times> ident \<Rightarrow> index_state \<Rightarrow> operation \<Rightarrow> index_state" where
  "prep_symbol i pair s p =
     (case s of (ctr, tensor_indxs, meas_map) \<Rightarrow>
        if op_id p = snd pair
        then (Suc ctr, tensor_indxs[i := tensor_indxs ! i @ [ctr]], meas_map(fst pair \<mapsto> ctr))
        else s)"

definition prep_symbols ::
  "comm_graph \<Rightarrow> index_state \<Rightarrow> nat \<times> nat \<times> operation list \<Rightarrow> index_state" where
  "prep_symbols cg s x =
     (case x of (i, node, prep) \<Rightarrow>
        foldl (\<lambda>s' pair. foldl (prep_symbol i pair) s' prep) s (pred_pairs cg node))"

fun meas_symbol ::
  "nat \<Rightarrow> ident \<times> ident \<Rightarrow> operation list \<Rightarrow> index_state \<Rightarrow> error + index_state" where
  "meas_symbol i pair [] s = Inr s"
| "meas_symbol i pair (m # ms) s =
     (case s of (ctr, tensor_indxs, meas_map) \<Rightarrow>
        if op_id m = fst pair then
          (case meas_map (fst pair) of
             None \<Rightarrow> Inl KeyError
           | Some symb \<Rightarrow>
               meas_symbol i pair ms (ctr, tensor_indxs[i := tensor_indxs ! i @ [symb]], meas_map))
        else meas_symbol i pair ms s)"

fun meas_pairs ::
  "nat \<Rightarrow> operation list \<Rightarrow> (ident \<times> ident) list \<Rightarrow> index_state \<Rightarrow> error + index_state" where
  "meas_pairs i meas [] s = Inr s"
| "meas_pairs i meas (pair # pairs) s =
     (case meas_symbol i pair meas s of
        Inl e \<Rightarrow> Inl e
      | Inr s' \<Rightarrow> meas_pairs i meas pairs s')"

fun meas_symbols ::
  "comm_graph \<Rightarrow> (nat \<times> nat \<times> operation list) list \<Rightarrow> index_state \<Rightarrow> error + index_state" where
  "meas_symbols cg [] s = Inr s"
| "meas_symbols cg ((i, node, meas) # rest) s =
     (case meas_pairs i meas (succ_pairs cg node) s of
        Inl e \<Rightarrow> Inl e
      | Inr s' \<Rightarrow> meas_symbols cg rest s')"

definition tensor_indices ::
  "comm_graph \<Rightarrow> operation list list \<Rightarrow> operation list list \<Rightarrow> error + nat list list" where
  "tensor_indices cg prepare_nodes measure_nodes =
     (let s0 = (0, replicate (length (cg_nodes cg)) [], Map.empty);
          s1 = foldl (prep_symbols cg) s0 (enumerate 0 (zip (cg_nodes cg) prepare_nodes))
      in case meas_symbols cg (enumerate 0 (zip (cg_nodes cg) measure_nodes)) s1 of
           Inl e \<Rightarrow> Inl e
         | Inr (_, tensor_indxs, _) \<Rightarrow> Inr tensor_indxs)"

text \<open>
  Modelled from the spec: the einsum oracle \<^verbatim>\<open>oe.contract\<close> on an equation without output
  part. There is one operand per term and one symbol per axis; a symbol has one size; the
  symbols that occur once are the axes of the result, in ascending order, and the others
  are summed over.
\<close>

definition symbol_sizes :: "nat list list \<Rightarrow> ndarray list \<Rightarrow> (nat \<times> nat) list" where
  "symbol_sizes terms tensors = concat (map (\<lambda>(tm, a). zip tm (nd_shape a)) (zip terms tensors))"

definition einsum :: "nat list list \<Rightarrow> ndarray list \<Rightarrow> error + ndarray" where
  "einsum tensor_indxs tensors =
     (let terms = (if tensor_indxs = [] then [[]] else tensor_indxs);
          sizes = symbol_sizes terms tensors;
          symbols = concat terms;
          out = sort (filter (\<lambda>x. count_list symbols x = 1) (first_occurrences symbols));
          summed = filter (\<lambda>x. count_list symbols x \<noteq> 1) (first_occurrences symbols);
          size_of = (\<lambda>x. the (map_of sizes x))
      in if length terms \<noteq> length tensors
            \<or> \<not> list_all (\<lambda>(tm, a). length tm = length (nd_shape a)) (zip terms tensors)
         then Inl (ValueError ''einsum operands do not match the subscripts'')
         else if \<not> list_all (\<lambda>(x, d). d = size_of x) sizes
         then Inl (ValueError ''einsum size of a label does not match previous terms'')
         else
           Inr \<lparr>nd_shape = map size_of out,
                nd_data =
                  map (\<lambda>oi. \<Sum>si\<leftarrow>indices (map size_of summed).
                         (let val = map_of (zip out oi @ zip summed si)
                          in prod_list (map (\<lambda>(tm, a). nd_get a (map (\<lambda>x. the (val x)) tm))
                                            (zip terms tensors))))
                      (indices (map size_of out))\<rparr>)"

definition contract_tensors ::
  "ndarray list \<Rightarrow> comm_graph \<Rightarrow> operation list list \<Rightarrow> operation list list \<Rightarrow> error + ndarray" where
  "contract_tensors tensors cg prepare_nodes measure_nodes =
     (case tensor_indices cg prepare_nodes measure_nodes of
        Inl e \<Rightarrow> Inl e
      | Inr tensor_indxs \<Rightarrow> einsum tensor_indxs tensors)"

definition contract ::
  "real list list \<Rightarrow> nat list \<Rightarrow> comm_graph \<Rightarrow> operation list list \<Rightarrow> operation list list
     \<Rightarrow> error + ndarray" where
  "contract results shapes cg prepare_nodes measure_nodes =
     (case results of
        [] \<Rightarrow> Inl IndexError
      | r # _ \<Rightarrow>
          if length r > 1
          then Inl (ValueError ''Only supporting returning a single expectation for now'')
          else
            (case get_tensors results shapes prepare_nodes measure_nodes of
               Inl e \<Rightarrow> Inl e
             | Inr tensors \<Rightarrow> contract_tensors tensors cg prepare_nodes measure_nodes))"

section \<open>Replacing wire cuts by measure and prepare nodes\<close>

text \<open>
  The views of a graph. \<^verbatim>\<open>graph.succ[u]\<close> groups the edges that leave \<open>u\<close> by their target,
  the targets in the order of their first edge; \<^verbatim>\<open>graph.pred[v]\<close> groups the edges that enter
  \<open>v\<close> by their source; \<^verbatim>\<open>graph.edges\<close> lists the edges that leave each node, node by node.
\<close>

definition out_edges :: "graph \<Rightarrow> ident \<Rightarrow> (ident \<times> ident \<times> wire) list" where
  "out_edges g u =
     (let out = filter (\<lambda>(a, b, w). a = u) (g_edges g)
      in concat (map (\<lambda>v. filter (\<lambda>(a, b, w). b = v) out)
                     (first_occurrences (map (\<lambda>(a, b, w). b) out))))"

definition in_edges :: "graph \<Rightarrow> ident \<Rightarrow> (ident \<times> ident \<times> wire) list" where
  "in_edges g v =
     (let into = filter (\<lambda>(a, b, w). b = v) (g_edges g)
      in concat (map (\<lambda>u. filter (\<lambda>(a, b, w). a = u) into)
                     (first_occurrences (map (\<lambda>(a, b, w). a) into))))"

definition edges_view :: "graph \<Rightarrow> (ident \<times> ident \<times> wire) list" where
  "edges_view g = concat (map (out_edges g) (node_ids g))"

definition node_of :: "graph \<Rightarrow> ident \<Rightarrow> node option" where
  "node_of g i = map_option fst (find (\<lambda>(n, ord). node_id n = i) (g_nodes g))"

definition order_of :: "graph \<Rightarrow> ident \<Rightarrow> rat option" where
  "order_of g i = map_option snd (find (\<lambda>(n, ord). node_id n = i) (g_nodes g))"

definition remove_node :: "ident \<Rightarrow> graph \<Rightarrow> graph" where
  "remove_node i g =
     \<lparr>g_nodes = filter (\<lambda>(n, ord). node_id n \<noteq> i) (g_nodes g),
      g_edges = filter (\<lambda>(a, b, w). a \<noteq> i \<and> b \<noteq> i) (g_edges g)\<rparr>"

definition link :: "ident \<Rightarrow> ident \<Rightarrow> wire \<Rightarrow> graph \<Rightarrow> graph" where
  "link u v w g = g\<lparr>g_edges := g_edges g @ [(u, v, w)]\<rparr>"

text \<open>
  \<^verbatim>\<open>remove_wire_cut_node\<close> for a cut without custom expansion: \<^verbatim>\<open>expand_cut\<close> creates a
  \<^verbatim>\<open>SimpleMeasureNode\<close> and a \<^verbatim>\<open>SimplePrepareNode\<close> for each wire of the cut, new objects.
\<close>

definition cut_wire_step ::
  "(wire \<rightharpoonup> ident) \<Rightarrow> (wire \<rightharpoonup> ident) \<Rightarrow> rat \<Rightarrow> ident \<Rightarrow> graph \<Rightarrow> nat \<times> wire \<Rightarrow> graph" where
  "cut_wire_step predecessor_on_wire successor_on_wire ord nid g kw =
     (case kw of (k, wire) \<Rightarrow>
        (let meas = \<lparr>op_id = nid + 2 * k, op_class = SimpleMeasureNode, op_wires = [wire]\<rparr>;
             prep = \<lparr>op_id = nid + 2 * k + 1, op_class = SimplePrepareNode, op_wires = [wire]\<rparr>;
             g1 = add_node (Op meas) ord g;
             g2 = add_node (Op prep) (ord + 1 / 2) g1;
             g3 = link (op_id meas) (op_id prep) wire g2;
             g4 = (case predecessor_on_wire wire of
                     None \<Rightarrow> g3
                   | Some u \<Rightarrow> link u (op_id meas) wire g3)
         in case successor_on_wire wire of
              None \<Rightarrow> g4
            | Some v \<Rightarrow> link (op_id prep) v wire g4))"

definition remove_wire_cut_node :: "operation \<Rightarrow> graph \<Rightarrow> error + graph" where
  "remove_wire_cut_node x g =
     (let predecessor_on_wire = dict_of (map (\<lambda>(a, b, w). (w, a)) (in_edges g (op_id x)));
          successor_on_wire = dict_of (map (\<lambda>(a, b, w). (w, b)) (out_edges g (op_id x)));
          nid = fresh_ident (node_ids g)
      in case order_of g (op_id x) of
           None \<Rightarrow> Inl KeyError
         | Some ord \<Rightarrow>
             Inr (foldl (cut_wire_step predecessor_on_wire successor_on_wire ord nid)
                        (remove_node (op_id x) g) (enumerate 0 (op_wires x))))"

fun remove_cuts_loop :: "node list \<Rightarrow> graph \<Rightarrow> error + graph" where
  "remove_cuts_loop [] g = Inr g"
| "remove_cuts_loop (Op x # ns) g =
     (if is_WireCut (op_class x)
      then (case remove_wire_cut_node x g of
              Inl e \<Rightarrow> Inl e
            | Inr g' \<Rightarrow> remove_cuts_loop ns g')
      else remove_cuts_loop ns g)"
| "remove_cuts_loop (Meas m # ns) g = remove_cuts_loop ns g"

definition remove_wire_cut_nodes :: "graph \<Rightarrow> error + graph" where
  "remove_wire_cut_nodes g = remove_cuts_loop (map fst (g_nodes g)) g"

section \<open>Fragmenting the graph\<close>

definition is_measure_node :: "graph \<Rightarrow> ident \<Rightarrow> bool" where
  "is_measure_node g i =
     (case node_of g i of Some (Op x) \<Rightarrow> is_MeasureNode (op_class x) | _ \<Rightarrow> False)"

definition is_prepare_node :: "graph \<Rightarrow> ident \<Rightarrow> bool" where
  "is_prepare_node g i =
     (case node_of g i of Some (Op x) \<Rightarrow> is_PrepareNode (op_class x) | _ \<Rightarrow> False)"

text \<open>\<^verbatim>\<open>graph.remove_edge(u, v)\<close> removes the edge between \<open>u\<close> and \<open>v\<close> that was added last.\<close>

fun remove_first :: "('a \<Rightarrow> bool) \<Rightarrow> 'a list \<Rightarrow> 'a list" where
  "remove_first P [] = []"
| "remove_first P (x # xs) = (if P x then xs else x # remove_first P xs)"

definition remove_edge :: "ident \<Rightarrow> ident \<Rightarrow> graph \<Rightarrow> graph" where
  "remove_edge u v g =
     g\<lparr>g_edges := rev (remove_first (\<lambda>(a, b, w). a = u \<and> b = v) (rev (g_edges g)))\<rparr>"

text \<open>The first loop of \<^verbatim>\<open>fragment_graph\<close>, over a snapshot of the edges.\<close>

fun remove_cut_edges ::
  "(ident \<times> ident \<times> wire) list \<Rightarrow> (ident \<times> ident) list \<times> graph
     \<Rightarrow> error + ((ident \<times> ident) list \<times> graph)" where
  "remove_cut_edges [] s = Inr s"
| "remove_cut_edges ((node1, node2, w) # es) s =
     (case s of (cut_edges, g) \<Rightarrow>
        if is_measure_node g node1 then
          (if is_prepare_node g node2
           then remove_cut_edges es (cut_edges @ [(node1, node2)], remove_edge node1 node2 g)
           else Inl AssertionError)
        else remove_cut_edges es s)"

text \<open>
  Modelled from the spec: \<^verbatim>\<open>weakly_connected_components\<close> of networkx. The component of a
  node is found by adding the neighbours (along edges in either direction) of the nodes
  found so far, once for each node of the graph; the components are generated in the order
  of their first node. A subgraph keeps the nodes of a component, in the order of the
  graph, and the edges between them.
\<close>

definition neighbours :: "(ident \<times> ident \<times> wire) list \<Rightarrow> ident \<Rightarrow> ident list" where
  "neighbours es v =
     map (\<lambda>(a, b, w). b) (filter (\<lambda>(a, b, w). a = v) es) @
     map (\<lambda>(a, b, w). a) (filter (\<lambda>(a, b, w). b = v) es)"

definition expand_component :: "(ident \<times> ident \<times> wire) list \<Rightarrow> ident list \<Rightarrow> ident list" where
  "expand_component es vs = first_occurrences (vs @ concat (map (neighbours es) vs))"

definition component_of :: "graph \<Rightarrow> ident \<Rightarrow> ident list" where
  "component_of g v = ((expand_component (g_edges g)) ^^ length (g_nodes g)) [v]"

fun components_loop :: "graph \<Rightarrow> ident list \<Rightarrow> ident list \<Rightarrow> ident list list" where
  "components_loop g [] seen = []"
| "components_loop g (v # vs) seen =
     (if v \<in> set seen then components_loop g vs seen
      else component_of g v # components_loop g vs (seen @ component_of g v))"

definition weakly_connected_components :: "graph \<Rightarrow> ident list list" where
  "weakly_connected_components g = components_loop g (node_ids g) []"

definition subgraph :: "graph \<Rightarrow> ident list \<Rightarrow> graph" where
  "subgraph g c =
     \<lparr>g_nodes = filter (\<lambda>(n, ord). node_id n \<in> set c) (g_nodes g),
      g_edges = filter (\<lambda>(a, b, w). a \<in> set c \<and> b \<in> set c) (g_edges g)\<rparr>"

definition has_node :: "graph \<Rightarrow> ident \<Rightarrow> bool" where
  "has_node g i = (i \<in> set (node_ids g))"

text \<open>
  The second loop: \<^verbatim>\<open>start_fragment\<close> and \<^verbatim>\<open>end_fragment\<close> are assigned where a subgraph has
  the node and keep their value otherwise, also from one cut edge to the next.
\<close>

definition find_fragments ::
  "graph list \<Rightarrow> ident \<Rightarrow> ident \<Rightarrow> nat option \<times> nat option \<Rightarrow> nat option \<times> nat option" where
  "find_fragments subgraphs node1 node2 s =
     foldl (\<lambda>(start_fragment, end_fragment) (i, sg).
              ((if has_node sg node1 then Some i else start_fragment),
               (if has_node sg node2 then Some i else end_fragment)))
           s (enumerate 0 subgraphs)"

fun communication_edges ::
  "graph list \<Rightarrow> (ident \<times> ident) list \<Rightarrow> nat option \<times> nat option
     \<Rightarrow> error + (nat \<times> nat \<times> ident \<times> ident) list" where
  "communication_edges subgraphs [] s = Inr []"
| "communication_edges subgraphs ((node1, node2) # cs) s =
     (case find_fragments subgraphs node1 node2 s of
        (Some start_fragment, Some end_fragment) \<Rightarrow>
          (case communication_edges subgraphs cs (Some start_fragment, Some end_fragment) of
             Inl e \<Rightarrow> Inl e
           | Inr es \<Rightarrow> Inr ((start_fragment, end_fragment, node1, node2) # es))
      | _ \<Rightarrow> Inl UnboundLocalError)"

definition fragment_graph :: "graph \<Rightarrow> error + (graph list \<times> comm_graph)" where
  "fragment_graph g =
     (case remove_cut_edges (edges_view g) ([], g) of
        Inl e \<Rightarrow> Inl e
      | Inr (cut_edges, g') \<Rightarrow>
          (let subgraphs = map (subgraph g') (weakly_connected_components g')
           in case communication_edges subgraphs cut_edges (None, None) of
                Inl e \<Rightarrow> Inl e
              | Inr es \<Rightarrow>
                  Inr (subgraphs, \<lparr>cg_nodes = [0..<length subgraphs], cg_edges = es\<rparr>)))"

section \<open>Lowering a fragment to a tape\<close>

function find_new_wire_from :: "wire list \<Rightarrow> int \<Rightarrow> int" where
  "find_new_wire_from wires ctr =
     (if ctr \<in> set wires then find_new_wire_from wires (ctr + 1) else ctr)"
  by pat_completeness auto
termination
proof (relation "measure (\<lambda>(wires, ctr). card {w \<in> set wires. ctr \<le> w})")
  show "wf (measure (\<lambda>(wires, ctr). card {w \<in> set wires. ctr \<le> w}))" by simp
next
  fix wires :: "wire list" and ctr :: int
  assume "ctr \<in> set wires"
  then have "ctr \<in> {w \<in> set wires. ctr \<le> w}" "ctr \<notin> {w \<in> set wires. ctr + 1 \<le> w}"
    by simp_all
  moreover have "{w \<in> set wires. ctr + 1 \<le> w} \<subseteq> {w \<in> set wires. ctr \<le> w}" by auto
  ultimately have "{w \<in> set wires. ctr + 1 \<le> w} \<subset> {w \<in> set wires. ctr \<le> w}" by blast
  then have "card {w \<in> set wires. ctr + 1 \<le> w} < card {w \<in> set wires. ctr \<le> w}"
    by (intro psubset_card_mono) auto
  then show "((wires, ctr + 1), (wires, ctr)) \<in> measure (\<lambda>(wires, ctr). card {w \<in> set wires. ctr \<le> w})"
    by simp
qed

definition find_new_wire :: "wire list \<Rightarrow> int" where
  "find_new_wire wires = find_new_wire_from wires 0"

definition set_wires :: "wire list \<Rightarrow> node \<Rightarrow> node" where
  "set_wires ws n =
     (case n of
        Op x \<Rightarrow> Op (x\<lparr>op_wires := ws\<rparr>)
      | Meas m \<Rightarrow> Meas (m\<lparr>m_wires_attr := ws\<rparr>))"

fun is_measure_op :: "node \<Rightarrow> bool" where
  "is_measure_op (Op x) = is_MeasureNode (op_class x)"
| "is_measure_op (Meas m) = False"

definition lookup_wire :: "(wire \<rightharpoonup> wire) \<Rightarrow> wire \<Rightarrow> error + wire" where
  "lookup_wire wire_map w = (case wire_map w of None \<Rightarrow> Inl KeyError | Some w' \<Rightarrow> Inr w')"

text \<open>
  The loop of \<^verbatim>\<open>graph_to_tape\<close> over the nodes sorted by \<^verbatim>\<open>order\<close>. The state is \<^verbatim>\<open>wires\<close> and
  \<^verbatim>\<open>wire_map\<close>; the result is the list of the nodes as the loop leaves them, each with the
  wires it was given by \<^verbatim>\<open>op._wires = Wires(new_wires)\<close>.
\<close>

fun lower_loop :: "node list \<Rightarrow> wire list \<times> (wire \<rightharpoonup> wire) \<Rightarrow> error + node list" where
  "lower_loop [] s = Inr []"
| "lower_loop (n # ns) s =
     (case s of (wires, wire_map) \<Rightarrow>
        (case map_result (lookup_wire wire_map) (node_wires n) of
           Inl e \<Rightarrow> Inl e
         | Inr new_wires \<Rightarrow>
             (let n' = set_wires new_wires n in
              if is_measure_op n' then
                (case node_wires n' of
                   [] \<Rightarrow> Inl IndexError
                 | measured_wire # _ \<Rightarrow>
                     (let new_wire = find_new_wire wires in
                      case lower_loop ns (wires @ [new_wire], wire_map(measured_wire \<mapsto> new_wire)) of
                        Inl e \<Rightarrow> Inl e
                      | Inr ns' \<Rightarrow> Inr (n' # ns')))
              else
                (case lower_loop ns s of
                   Inl e \<Rightarrow> Inl e
                 | Inr ns' \<Rightarrow> Inr (n' # ns')))))"

definition ordered_ops :: "graph \<Rightarrow> node list" where
  "ordered_ops g = map fst (sort_key snd (g_nodes g))"

definition lowered_nodes :: "graph \<Rightarrow> error + node list" where
  "lowered_nodes g =
     (let wires = all_wires (map (\<lambda>(n, ord). node_wires n) (g_nodes g))
      in lower_loop (ordered_ops g) (wires, map_of (map (\<lambda>w. (w, w)) wires)))"

fun node_operations :: "node list \<Rightarrow> operation list" where
  "node_operations [] = []"
| "node_operations (Op x # ns) = x # node_operations ns"
| "node_operations (Meas m # ns) = node_operations ns"

fun node_measurements :: "node list \<Rightarrow> measurement list" where
  "node_measurements [] = []"
| "node_measurements (Op x # ns) = node_measurements ns"
| "node_measurements (Meas m # ns) = m # node_measurements ns"

definition graph_to_tape :: "graph \<Rightarrow> error + tape" where
  "graph_to_tape g =
     (case lowered_nodes g of
        Inl e \<Rightarrow> Inl e
      | Inr ns \<Rightarrow> Inr \<lparr>operations = node_operations ns, measurements = node_measurements ns\<rparr>)"

section \<open>The transform\<close>

text \<open>
  \<^verbatim>\<open>cut_circuit\<close> with \<^verbatim>\<open>method=None\<close>. The post-processing function is \<^verbatim>\<open>contract\<close> with the
  four bound arguments, which are returned here.
\<close>

type_synonym postprocessing = "nat list \<times> comm_graph \<times> operation list list \<times> operation list list"

definition cut_circuit :: "tape \<Rightarrow> error + (tape list \<times> postprocessing)" where
  "cut_circuit t =
     (case tape_to_graph t of
        Inl e \<Rightarrow> Inl e
      | Inr g0 \<Rightarrow>
     (case remove_wire_cut_nodes g0 of
        Inl e \<Rightarrow> Inl e
      | Inr g \<Rightarrow>
     (case fragment_graph g of
        Inl e \<Rightarrow> Inl e
      | Inr (fragments, communication_graph) \<Rightarrow>
     (case map_result graph_to_tape fragments of
        Inl e \<Rightarrow> Inl e
      | Inr fragment_tapes \<Rightarrow>
     (case map_result expand_fragment_tapes fragment_tapes of
        Inl e \<Rightarrow> Inl e
      | Inr expanded \<Rightarrow>
          (let configurations = map (\<lambda>(tapes, p, m). tapes) expanded;
               prepare_nodes = map (\<lambda>(tapes, p, m). p) expanded;
               measure_nodes = map (\<lambda>(tapes, p, m). m) expanded;
               shapes = map length configurations
           in Inr (concat configurations,
                   (shapes, communication_graph, prepare_nodes, measure_nodes))))))))"

definition postprocess :: "postprocessing \<Rightarrow> real list list \<Rightarrow> error + ndarray" where
  "postprocess pp results =
     (case pp of (shapes, communication_graph, prepare_nodes, measure_nodes) \<Rightarrow>
        contract results shapes communication_graph prepare_nodes measure_nodes)"

subsection \<open>What the assembler and the contractor are specified to compute\<close>

text \<open>
  The specification's words, for comparison with the code. The change of basis along axis
  \<open>i\<close> replaces axis \<open>i\<close> and leaves every axis at its position, so that axis \<open>k\<close> keeps
  indexing the \<open>k\<close>-th prepare node.
\<close>

definition change_basis_axis :: "real list list \<Rightarrow> ndarray \<Rightarrow> nat \<Rightarrow> ndarray" where
  "change_basis_axis C a i =
     \<lparr>nd_shape = (nd_shape a)[i := length C],
      nd_data =
        map (\<lambda>idx. \<Sum>c\<leftarrow>[0..<nd_shape a ! i]. C ! (idx ! i) ! c * nd_get a (idx[i := c]))
            (indices ((nd_shape a)[i := length C]))\<rparr>"

definition spec_fragment_tensor :: "real list list \<Rightarrow> nat \<Rightarrow> nat \<Rightarrow> error + ndarray" where
  "spec_fragment_tensor rs n_prep n_meas =
     (case stack rs of
        Inl e \<Rightarrow> Inl e
      | Inr a \<Rightarrow>
          (case reshape (replicate (n_prep + n_meas) 4) a of
             Inl e \<Rightarrow> Inl e
           | Inr b \<Rightarrow>
               Inr (foldl (change_basis_axis CHANGE_OF_BASIS_MAT)
                      (b\<lparr>nd_data := map (\<lambda>x. x * scale_factor (n_meas + n_prep)) (nd_data b)\<rparr>)
                      [0..<n_prep])))"

text \<open>
  The symbol strings mirror the node lists when, for every cut, the symbol at the position
  of its prepare node among the prepare axes of the end fragment is the symbol at the
  position of its measure node among the measure axes of the start fragment.
\<close>

definition position :: "ident \<Rightarrow> operation list \<Rightarrow> nat" where
  "position i xs = length (takeWhile (\<lambda>x. op_id x \<noteq> i) xs)"

definition cut_symbols_match ::
  "comm_graph \<Rightarrow> operation list list \<Rightarrow> operation list list \<Rightarrow> nat list list \<Rightarrow> bool" where
  "cut_symbols_match cg prepare_nodes measure_nodes tensor_indxs =
     list_all (\<lambda>(u, v, m, p).
        tensor_indxs ! v ! position p (prepare_nodes ! v) =
        tensor_indxs ! u ! (length (prepare_nodes ! u) + position m (measure_nodes ! u)))
       (cg_edges cg)"

subsection \<open>Example inputs of the assembler and the contractor\<close>

definition mnode :: "ident \<Rightarrow> wire \<Rightarrow> operation" where
  "mnode i w = \<lparr>op_id = i, op_class = SimpleMeasureNode, op_wires = [w]\<rparr>"

definition pnode :: "ident \<Rightarrow> wire \<Rightarrow> operation" where
  "pnode i w = \<lparr>op_id = i, op_class = SimplePrepareNode, op_wires = [w]\<rparr>"

text \<open>
  A fragment with two prepare nodes and no measure node; of its sixteen results only the
  one for the third term of the first node and the first term of the second node is not zero.
\<close>

definition two_prepare_results :: "real list list" where
  "two_prepare_results =
     [[0], [0], [0], [0], [0], [0], [0], [0], [1], [0], [0], [0], [0], [0], [0], [0]]"

text \<open>
  Three fragments: fragment 2 is entered by the cuts \<open>(10, 11)\<close> and \<open>(14, 15)\<close> from
  fragment 0 and by the cut \<open>(12, 13)\<close> from fragment 1, added in the order of the cuts on
  the tape.
\<close>

definition three_fragments :: comm_graph where
  "three_fragments =
     \<lparr>cg_nodes = [0, 1, 2], cg_edges = [(0, 2, 10, 11), (1, 2, 12, 13), (0, 2, 14, 15)]\<rparr>"

definition three_fragments_prepare :: "operation list list" where
  "three_fragments_prepare = [[], [], [pnode 11 0, pnode 13 1, pnode 15 2]]"

definition three_fragments_measure :: "operation list list" where
  "three_fragments_measure = [[mnode 10 0, mnode 14 2], [mnode 12 1], []]"

text \<open>
  Two fragments joined by one cut whose measure node has four terms and whose prepare node
  has two; the configurations of the second fragment return two values each.
\<close>

definition two_fragments :: comm_graph where
  "two_fragments = \<lparr>cg_nodes = [0, 1], cg_edges = [(0, 1, 10, 11)]\<rparr>"

definition short_prepare :: operation where
  "short_prepare =
     \<lparr>op_id = 11, op_class = PrepareNode (Some [prep_zero_state, prep_one_state]), op_wires = [0]\<rparr>"

definition ragged_results :: "real list list" where
  "ragged_results = [[1], [0], [0], [1], [1, 1], [1, 1]]"

subsection \<open>Connection in a graph, and fragments that reuse no measured wire\<close>


text \<open>
  No node of the list acts on a wire that a measure node earlier in the list has measured
  (\<open>ms\<close> holds the wires measured so far).
\<close>

fun no_reuse :: "node list \<Rightarrow> wire list \<Rightarrow> bool" where
  "no_reuse [] ms = True"
| "no_reuse (n # ns) ms =
     (list_all (\<lambda>w. w \<notin> set ms) (node_wires n) \<and>
      no_reuse ns (if is_measure_op n then ms @ take 1 (node_wires n) else ms))"

subsection \<open>Example tapes and graphs of the pipeline\<close>

definition wire_cut :: "ident \<Rightarrow> wire list \<Rightarrow> operation" where
  "wire_cut i ws = \<lparr>op_id = i, op_class = WireCut, op_wires = ws\<rparr>"



text \<open>The only fragment of that graph.\<close>

definition bridged_cut_fragment :: graph where
  "bridged_cut_fragment =
     \<lparr>g_nodes = [(Op (gate 0 ''CNOT'' [0, 1]), 0),
                 (Op (gate 2 ''CNOT'' [0, 1]), 2),
                 (Meas (expval 3 (Single (pauli PauliZ 1))), 3),
                 (Op (mnode 4 0), 1),
                 (Op (pnode 5 0), 3 / 2)],
      g_edges = [(0, 2, 1), (2, 3, 1), (0, 4, 0), (5, 2, 0)]\<rparr>"

text \<open>The fragment \<^verbatim>\<open>Hadamard(0); MeasureNode(0)\<close>.\<close>

definition measured_fragment :: graph where
  "measured_fragment =
     \<lparr>g_nodes = [(Op (gate 0 ''Hadamard'' [0]), 0), (Op (mnode 6 0), 1)],
      g_edges = [(0, 6, 0)]\<rparr>"


fun is_Gate :: "op_class \<Rightarrow> bool" where
  "is_Gate (Gate _) = True"
| "is_Gate _ = False"

text \<open>\<^verbatim>\<open>Hadamard(0); PauliX(1); expval(PauliZ(0))\<close>: no cut, two wires that never meet.\<close>

definition disconnected_tape :: tape where
  "disconnected_tape =
     \<lparr>operations = [gate 0 ''Hadamard'' [0], gate 1 ''PauliX'' [1]],
      measurements = [expval 2 (Single (pauli PauliZ 0))]\<rparr>"

text \<open>\<^verbatim>\<open>Hadamard(0); CNOT(0, 1); expval(PauliZ(1))\<close>\<close>

definition bell_tape :: tape where
  "bell_tape =
     \<lparr>operations = [gate 0 ''Hadamard'' [0], gate 1 ''CNOT'' [0, 1]],
      measurements = [expval 2 (Single (pauli PauliZ 1))]\<rparr>"

definition bell_graph :: graph where
  "bell_graph =
     \<lparr>g_nodes = [(Op (gate 0 ''Hadamard'' [0]), 0), (Op (gate 1 ''CNOT'' [0, 1]), 1),
                 (Meas (expval 2 (Single (pauli PauliZ 1))), 2)],
      g_edges = [(0, 1, 0), (1, 2, 1)]\<rparr>"

text \<open>
  The nodes of the graph of a tape whose only measurement \<open>m\<close> has a single observable:
  the operations with orders \<open>0, 1, \<dots>\<close>, then the measurement.
\<close>

definition lifted_nodes :: "operation list \<Rightarrow> measurement \<Rightarrow> (node \<times> rat) list" where
  "lifted_nodes xs m =
     map (\<lambda>(i, x). (Op x, of_nat i)) (enumerate 0 xs) @ [(Meas m, of_nat (length xs))]"

text \<open>\<^verbatim>\<open>Hadamard(0); WireCut(0); CNOT(0, 1); expval(PauliZ(0) @ PauliZ(1))\<close>\<close>

definition cnot_cut_tape :: tape where
  "cnot_cut_tape =
     \<lparr>operations = [gate 0 ''Hadamard'' [0], wire_cut 1 [0], gate 2 ''CNOT'' [0, 1]],
      measurements = [expval 3 (Tensor [pauli PauliZ 0, pauli PauliZ 1])]\<rparr>"

text \<open>
  \<^verbatim>\<open>PauliX(0); Identity(1); WireCut(0); WireCut(1); CNOT(0, 1); expval(PauliZ(0))\<close>: wire 0
  carries the state one into the control of the gate, so the expectation value is \<open>-1\<close>.
\<close>

definition two_cuts_tape :: tape where
  "two_cuts_tape =
     \<lparr>operations = [gate 0 ''PauliX'' [0], gate 1 ''Identity'' [1], wire_cut 2 [0],
                    wire_cut 3 [1], gate 4 ''CNOT'' [0, 1]],
      measurements = [expval 5 (Single (pauli PauliZ 0))]\<rparr>"

text \<open>What a configuration tape applies and measures, without the identities.\<close>

definition tape_summary :: "tape \<Rightarrow> (op_class \<times> wire list) list \<times> obs option list" where
  "tape_summary tp =
     (map (\<lambda>x. (op_class x, op_wires x)) (operations tp), map m_obs (measurements tp))"

text \<open>
  The exact expectation values of the 24 configuration tapes of \<open>two_cuts_tape\<close>: of
  \<open>I, X, Y, Z\<close> in the state one (first fragment) and in the state zero (second fragment),
  and, for the third fragment, of \<open>Z\<close> on wire 0 behind the gate, which is that of the state
  prepared on wire 0 (\<open>1, -1, 0, 0\<close> for the four preparations) whatever is prepared on
  wire 1.
\<close>

definition two_cuts_results :: "real list list" where
  "two_cuts_results =
     map (\<lambda>z. [z]) ([1, 0, 0, -1] @ [1, 0, 0, 1] @
                     [1, 1, 1, 1, -1, -1, -1, -1, 0, 0, 0, 0, 0, 0, 0, 0])"

section \<open>Properties\<close>

text \<open>
  C10. \<^verbatim>\<open>tape_to_graph\<close> on a tape whose list of operations is empty fails with the
  unbound-variable error, whatever its measurements are: \<^verbatim>\<open>order += 1\<close> reads a variable that
  only the loop over the operations binds.
\<close>

theorem tape_to_graph_no_operations:
  "tape_to_graph \<lparr>operations = [], measurements = ms\<rparr> = Inl UnboundLocalError"
  by (simp add: tape_to_graph_def)

subsection \<open>The configuration expander\<close>

lemmas expand_simps =
  expand_fragment_tapes_def prepare_nodes_of_def measure_nodes_of_def terms_product_def
  fresh_ident_def tape_idents_def config_tape_def dict_of_def user_observable_def gate_def
  pauli_def expval_def full_tensor_def first_wire_def py_sorted_def cut_observable_def
  tape_wires_def all_wires_def apply_prep_def

lemma configs_loop_length:
  "configs_loop t cs nid = Inr tps \<Longrightarrow> length tps = length cs"
  by (induction cs arbitrary: nid tps) (auto split: sum.splits prod.splits)

lemma configs_loop_nth:
  "configs_loop t cs nid = Inr tps \<Longrightarrow> k < length cs \<Longrightarrow>
     \<exists>n n'. config_tape t n (fst (cs ! k)) (snd (cs ! k)) = Inr (tps ! k, n')"
proof (induction cs arbitrary: nid tps k)
  case Nil
  then show ?case by simp
next
  case (Cons c cs)
  from Cons.prems(1) obtain tp n1 rest where
    c: "config_tape t nid (fst c) (snd c) = Inr (tp, n1)" and
    r: "configs_loop t cs n1 = Inr rest" and
    tps: "tps = tp # rest"
    by (auto split: sum.splits prod.splits)
  show ?case
  proof (cases k)
    case 0
    with c tps show ?thesis by auto
  next
    case (Suc j)
    with Cons.prems(2) have "j < length cs" by simp
    from Cons.IH[OF r this] Suc tps show ?thesis by simp
  qed
qed

lemma configs_loop_total:
  "(\<And>c n. c \<in> set cs \<Longrightarrow> \<exists>tp n'. config_tape t n (fst c) (snd c) = Inr (tp, n')) \<Longrightarrow>
     \<exists>tps. configs_loop t cs nid = Inr tps"
proof (induction cs arbitrary: nid)
  case Nil
  then show ?case by simp
next
  case (Cons c cs)
  from Cons.prems[of c nid] obtain tp n1 where c: "config_tape t nid (fst c) (snd c) = Inr (tp, n1)"
    by auto
  from Cons.IH[of n1] Cons.prems obtain tps where "configs_loop t cs n1 = Inr tps"
    by (metis list.set_intros(2))
  with c show ?case by simp
qed

lemma terms_product_Inr:
  "terms_product ts = Inr cs \<Longrightarrow> ts = map Some (map the ts) \<and> cs = product_lists (map the ts)"
proof -
  assume a: "terms_product ts = Inr cs"
  then have n: "None \<notin> set ts" and c: "cs = product_lists (map the ts)"
    by (auto simp: terms_product_def split: if_splits)
  have "map Some (map the ts) = ts"
    using n by (induction ts) auto
  with c show ?thesis by simp
qed


lemma measure_not_prepare: "is_MeasureNode c \<Longrightarrow> \<not> is_PrepareNode c"
  by (cases c) auto

lemma record_ops_total:
  "(\<And>x. x \<in> set xs \<Longrightarrow> is_PrepareNode (op_class x) \<Longrightarrow> pm (op_id x) \<noteq> None) \<Longrightarrow>
     \<exists>q n'. record_ops pm xs (q0, ms0, n0)
              = Inr (q, ms0 @ filter (\<lambda>x. is_MeasureNode (op_class x)) xs, n')"
proof (induction xs arbitrary: q0 ms0 n0)
  case Nil
  then show ?case by simp
next
  case (Cons x xs)
  have ih: "\<And>q0 ms0 n0. \<exists>q n'. record_ops pm xs (q0, ms0, n0)
              = Inr (q, ms0 @ filter (\<lambda>x. is_MeasureNode (op_class x)) xs, n')"
    using Cons.IH Cons.prems by (meson list.set_intros(2))
  show ?case
  proof (cases "is_PrepareNode (op_class x)")
    case True
    then obtain pt where tm: "pm (op_id x) = Some pt"
      using Cons.prems[of x] by auto
    from True have "\<not> is_MeasureNode (op_class x)"
      using measure_not_prepare by blast
    with True tm ih[of "q0 @ apply_prep pt (op_wires x) n0" ms0 "n0 + length pt"]
    show ?thesis by simp
  next
    case False
    show ?thesis
    proof (cases "is_MeasureNode (op_class x)")
      case True
      with False ih[of q0 "ms0 @ [x]" n0] show ?thesis by simp
    next
      case nm: False
      with False ih[of "q0 @ [x]" ms0 n0] show ?thesis by simp
    qed
  qed
qed

lemma dict_of_zip_defined:
  "length ks = length vs \<Longrightarrow> k \<in> set ks \<Longrightarrow> dict_of (zip ks vs) k \<noteq> None"
  by (simp add: dict_of_def map_of_eq_None_iff set_zip_leftD image_iff)
     (metis fst_conv in_set_impl_in_set_zip1)

lemma map_result_total:
  "(\<And>x. x \<in> set xs \<Longrightarrow> f x = Inr (g x)) \<Longrightarrow> map_result f xs = Inr (map g xs)"
  by (induction xs) auto

lemma user_expvals_length:
  "user_expvals cut_obs ms nid = Inr es \<Longrightarrow> length es = length ms"
  by (induction ms arbitrary: nid es) (auto split: sum.splits)

lemma user_expvals_total:
  "(\<And>m. m \<in> set ms \<Longrightarrow> \<exists>ob. user_observable cut_obs m = Inr ob) \<Longrightarrow>
     \<exists>es. user_expvals cut_obs ms nid = Inr es"
proof (induction ms arbitrary: nid)
  case Nil
  then show ?case by simp
next
  case (Cons m ms)
  from Cons.prems[of m] obtain ob where ob: "user_observable cut_obs m = Inr ob" by auto
  from Cons.IH[of "Suc nid"] Cons.prems obtain es where "user_expvals cut_obs ms (Suc nid) = Inr es"
    by (metis list.set_intros(2))
  with ob show ?case by simp
qed

lemma first_wire_total:
  "obs_wires ob \<noteq> [] \<Longrightarrow> first_wire ob = Inr (hd (obs_wires ob), ob)"
  by (cases "obs_wires ob") (auto simp: first_wire_def)

lemma full_tensor_total:
  assumes "\<And>ob. ob \<in> set cut_obs \<Longrightarrow> obs_wires ob \<noteq> []"
    and "\<And>ob. ob \<in> set user \<Longrightarrow> obs_wires ob \<noteq> []"
    and "distinct (map (\<lambda>ob. hd (obs_wires ob)) cut_obs @ map (\<lambda>ob. hd (obs_wires ob)) user)"
  shows "\<exists>ob. full_tensor cut_obs user = Inr ob"
proof -
  have a: "map_result first_wire cut_obs = Inr (map (\<lambda>ob. (hd (obs_wires ob), ob)) cut_obs)"
    using assms(1) by (intro map_result_total first_wire_total)
  have b: "map_result first_wire user = Inr (map (\<lambda>ob. (hd (obs_wires ob), ob)) user)"
    using assms(2) by (intro map_result_total first_wire_total)
  show ?thesis
    using assms(3) by (simp add: full_tensor_def a b py_sorted_def comp_def)
qed

lemma user_observable_total:
  assumes acc: "accepted t m"
    and ne: "\<And>ob. ob \<in> set cut_obs \<Longrightarrow> obs_wires ob \<noteq> []"
    and keys: "map (\<lambda>ob. hd (obs_wires ob)) cut_obs = cut_keys t"
    and dist: "distinct (cut_keys t)"
  shows "\<exists>ob. user_observable cut_obs m = Inr ob"
proof (cases "m_obs m")
  case None
  with acc show ?thesis by (simp add: accepted_def)
next
  case (Some u)
  show ?thesis
  proof (cases u)
    case (Single ob)
    with Some acc have c: "obs_class ob \<in> set [Identity, PauliX, PauliY, PauliZ]"
      and w: "obs_wires ob \<noteq> []" and k: "hd (obs_wires ob) \<notin> set (cut_keys t)"
      and r: "return_type m = Expectation"
      by (simp_all add: accepted_def)
    have "\<exists>ob'. full_tensor cut_obs [ob] = Inr ob'"
      using ne w k dist by (intro full_tensor_total) (auto simp: keys)
    with Some Single c r show ?thesis by (simp add: user_observable_def)
  next
    case (Tensor terms)
    with Some acc have c: "list_all (\<lambda>ob. obs_class ob \<in> set [Identity, PauliX, PauliY] \<and> obs_wires ob \<noteq> []) terms"
      and d: "distinct (cut_keys t @ map (\<lambda>ob. hd (obs_wires ob)) terms)"
      and r: "return_type m = Expectation"
      by (simp_all add: accepted_def)
    have c': "list_all (\<lambda>t. obs_class t \<in> set [Identity, PauliX, PauliY, PauliY]) terms"
      using c by (auto simp: list_all_iff)
    have "\<exists>ob'. full_tensor cut_obs terms = Inr ob'"
      using ne c d by (intro full_tensor_total) (auto simp: keys list_all_iff)
    with Some Tensor c' r show ?thesis by (simp add: user_observable_def)
  qed
qed

lemma config_tape_measurements:
  assumes "config_tape t nid ps ms = Inr (tp, n')" and "measurements t \<noteq> []"
  shows "length (measurements tp) = length (measurements t)"
  using assms
  by (auto simp: config_tape_def Let_def split: sum.splits prod.splits dest: user_expvals_length)

lemma config_tape_total:
  assumes ex: "expandable t"
    and lp: "length ps = length (prepare_nodes_of t)"
    and lm: "length ms = length (measure_nodes_of t)"
  shows "\<exists>tp n'. config_tape t nid ps ms = Inr (tp, n')"
proof -
  define pm where "pm = dict_of (zip (map op_id (prepare_nodes_of t)) ps)"
  define mm where "mm = dict_of (zip (map op_id (measure_nodes_of t)) ms)"
  define g where "g = (\<lambda>x::operation. \<lparr>obs_class = the (mm (op_id x)), obs_wires = op_wires x\<rparr>)"
  have "\<And>x. x \<in> set (operations t) \<Longrightarrow> is_PrepareNode (op_class x) \<Longrightarrow> pm (op_id x) \<noteq> None"
    unfolding pm_def using lp
    by (intro dict_of_zip_defined) (auto simp: prepare_nodes_of_def)
  from record_ops_total[of "operations t" pm "[]" "[]" nid, OF this]
  obtain q n1 where rec: "record_ops pm (operations t) ([], [], nid) = Inr (q, measure_nodes_of t, n1)"
    by (auto simp: measure_nodes_of_def)
  have "\<And>x. x \<in> set (measure_nodes_of t) \<Longrightarrow> cut_observable mm x = Inr (g x)"
  proof -
    fix x assume "x \<in> set (measure_nodes_of t)"
    then have "mm (op_id x) \<noteq> None"
      unfolding mm_def using lm by (intro dict_of_zip_defined) auto
    then show "cut_observable mm x = Inr (g x)"
      by (auto simp: cut_observable_def g_def)
  qed
  then have cut: "map_result (cut_observable mm) (measure_nodes_of t) = Inr (map g (measure_nodes_of t))"
    by (rule map_result_total)
  show ?thesis
  proof (cases "measurements t = []")
    case True
    with ex have "measure_nodes_of t \<noteq> [] \<or> tape_wires t \<noteq> []"
      by (simp add: expandable_def)
    then show ?thesis
      using True rec cut
      by (cases "tape_wires t")
         (auto simp: config_tape_def Let_def pm_def[symmetric] mm_def[symmetric])
  next
    case False
    with ex have w: "list_all (\<lambda>x. op_wires x \<noteq> []) (measure_nodes_of t)"
      and d: "distinct (cut_keys t)" and a: "list_all (accepted t) (measurements t)"
      by (simp_all add: expandable_def)
    have "\<And>m. m \<in> set (measurements t) \<Longrightarrow>
             \<exists>ob. user_observable (map g (measure_nodes_of t)) m = Inr ob"
    proof -
      fix m assume "m \<in> set (measurements t)"
      with a have "accepted t m" by (simp add: list_all_iff)
      then show "\<exists>ob. user_observable (map g (measure_nodes_of t)) m = Inr ob"
        using w d
        by (intro user_observable_total[of t])
           (auto simp: g_def cut_keys_def list_all_iff comp_def)
    qed
    from user_expvals_total[of "measurements t" "map g (measure_nodes_of t)" n1, OF this]
    obtain es where "user_expvals (map g (measure_nodes_of t)) (measurements t) n1 = Inr es"
      by auto
    then show ?thesis
      using False rec cut
      by (auto simp: config_tape_def Let_def pm_def[symmetric] mm_def[symmetric])
  qed
qed

lemma expand_fragment_tapes_total:
  assumes "expandable t"
  shows "\<exists>tapes. expand_fragment_tapes t = Inr (tapes, prepare_nodes_of t, measure_nodes_of t)"
proof -
  let ?pt = "map (\<lambda>p. prepare_terms (op_class p)) (prepare_nodes_of t)"
  let ?mt = "map (\<lambda>m. measure_terms (op_class m)) (measure_nodes_of t)"
  from assms have np: "None \<notin> set ?pt" and nm: "None \<notin> set ?mt"
    by (auto simp: expandable_def list_all_iff)
  have "\<And>c n. c \<in> set (List.product (product_lists (map the ?pt)) (product_lists (map the ?mt))) \<Longrightarrow>
          \<exists>tp n'. config_tape t n (fst c) (snd c) = Inr (tp, n')"
  proof -
    fix c n
    assume "c \<in> set (List.product (product_lists (map the ?pt)) (product_lists (map the ?mt)))"
    then have "length (fst c) = length (prepare_nodes_of t)" "length (snd c) = length (measure_nodes_of t)"
      by (auto dest: in_set_product_lists_length)
    then show "\<exists>tp n'. config_tape t n (fst c) (snd c) = Inr (tp, n')"
      using assms by (intro config_tape_total)
  qed
  from configs_loop_total[of "List.product (product_lists (map the ?pt)) (product_lists (map the ?mt))" t
      "fresh_ident (tape_idents t)", OF this]
  obtain tps where "configs_loop t (List.product (product_lists (map the ?pt)) (product_lists (map the ?mt)))
     (fresh_ident (tape_idents t)) = Inr tps"
    by blast
  then show ?thesis
    using np nm by (simp add: expand_fragment_tapes_def terms_product_def)
qed

lemma expand_fragment_tapes_Inr:
  assumes "expand_fragment_tapes t = Inr (tapes, ps, ms)"
  shows "ps = prepare_nodes_of t" "ms = measure_nodes_of t"
    "\<exists>pts mts.
        map (\<lambda>p. prepare_terms (op_class p)) ps = map Some pts \<and>
        map (\<lambda>m. measure_terms (op_class m)) ms = map Some mts \<and>
        configs_loop t (List.product (product_lists pts) (product_lists mts))
          (fresh_ident (tape_idents t)) = Inr tapes"
proof -
  let ?pt = "map (\<lambda>p. prepare_terms (op_class p)) (prepare_nodes_of t)"
  let ?mt = "map (\<lambda>m. measure_terms (op_class m)) (measure_nodes_of t)"
  from assms obtain pcs mcs where
    p: "terms_product ?pt = Inr pcs" and m: "terms_product ?mt = Inr mcs" and
    c: "configs_loop t (List.product pcs mcs) (fresh_ident (tape_idents t)) = Inr tapes" and
    e: "ps = prepare_nodes_of t" "ms = measure_nodes_of t"
    by (auto simp: expand_fragment_tapes_def Let_def split: sum.splits)
  show "ps = prepare_nodes_of t" "ms = measure_nodes_of t" by (fact e)+
  from terms_product_Inr[OF p] terms_product_Inr[OF m] c e
  show "\<exists>pts mts.
        map (\<lambda>p. prepare_terms (op_class p)) ps = map Some pts \<and>
        map (\<lambda>m. measure_terms (op_class m)) ms = map Some mts \<and>
        configs_loop t (List.product (product_lists pts) (product_lists mts))
          (fresh_ident (tape_idents t)) = Inr tapes"
    by metis
qed






text \<open>
  C4 (amended). A fragment tape with two or more user measurements is not refused for their
  number: when its nodes have terms and each user measurement is accepted, the expander
  returns the configuration tapes, each with one expectation value per user measurement.
\<close>

theorem expand_fragment_tapes_many_measurements:
  assumes "2 \<le> length (measurements t)" and "expandable t"
  shows "\<exists>tapes. expand_fragment_tapes t = Inr (tapes, prepare_nodes_of t, measure_nodes_of t) \<and>
           list_all (\<lambda>tp. length (measurements tp) = length (measurements t)) tapes"
proof -
  from expand_fragment_tapes_total[OF assms(2)] obtain tapes where
    r: "expand_fragment_tapes t = Inr (tapes, prepare_nodes_of t, measure_nodes_of t)" by blast
  from expand_fragment_tapes_Inr(3)[OF r] obtain pts mts where
    cl: "configs_loop t (List.product (product_lists pts) (product_lists mts))
          (fresh_ident (tape_idents t)) = Inr tapes"
    by blast
  have ne: "measurements t \<noteq> []" using assms(1) by auto
  have "length (measurements tp) = length (measurements t)" if "tp \<in> set tapes" for tp
  proof -
    from that obtain k where k: "k < length tapes" "tapes ! k = tp"
      by (auto simp: in_set_conv_nth)
    with configs_loop_length[OF cl] have "k < length (List.product (product_lists pts) (product_lists mts))"
      by simp
    from configs_loop_nth[OF cl this] k obtain n n' a b where "config_tape t n a b = Inr (tp, n')"
      by auto
    from config_tape_measurements[OF this ne] show ?thesis .
  qed
  with r show ?thesis by (auto simp: list_all_iff)
qed

theorem expand_fragment_tapes_many_measurements_witness:
  "2 \<le> length (measurements two_expvals_tape) \<and> expandable two_expvals_tape \<and>
   (\<exists>tapes. expand_fragment_tapes two_expvals_tape
        = Inr (tapes, prepare_nodes_of two_expvals_tape, measure_nodes_of two_expvals_tape) \<and>
      list_all (\<lambda>tp. length (measurements tp) = length (measurements two_expvals_tape)) tapes)"
proof -
  have a: "2 \<le> length (measurements two_expvals_tape)"
    by (simp add: two_expvals_tape_def)
  have b: "expandable two_expvals_tape"
    by (simp add: expandable_def two_expvals_tape_def accepted_def cut_keys_def expand_simps)
  from expand_fragment_tapes_many_measurements[OF a b] a b show ?thesis by blast
qed

text \<open>
  C4 (as stated) fails: the tape \<^verbatim>\<open>Hadamard(0); PauliX(1); expval(PauliZ(0)); expval(PauliZ(1))\<close>
  has two user measurements and is expanded into one configuration tape with two expectation
  values.
\<close>

theorem expand_fragment_tapes_two_expvals:
  "length (measurements two_expvals_tape) = 2 \<and>
   expand_fragment_tapes two_expvals_tape =
     Inr ([\<lparr>operations = [gate 0 ''Hadamard'' [0], gate 1 ''PauliX'' [1]],
            measurements = [expval 4 (Tensor [pauli PauliZ 0]),
                            expval 5 (Tensor [pauli PauliZ 1])]\<rparr>], [], [])"
  by (simp add: two_expvals_tape_def expand_simps)

text \<open>
  C3. The tape \<^verbatim>\<open>Hadamard(0); expval(PauliZ(0) @ PauliX(1))\<close> has one user measurement, an
  expectation value of a tensor product of Paulis, and the expander raises on it: the check
  of the tensor branch lists \<^verbatim>\<open>PauliY\<close> twice and \<^verbatim>\<open>PauliZ\<close> not at all.
\<close>

theorem expand_fragment_tapes_rejects_PauliZ_factor:
  "expand_fragment_tapes zx_tensor_tape = Inl (ValueError ''Only tensor products of Paulis for now'')"
  by (simp add: zx_tensor_tape_def expand_simps)

subsection \<open>The tensor assembler and the contractor\<close>

lemma scale_factor_2: "scale_factor 2 = 1 / 2"
  by (simp add: scale_factor_def powr_minus divide_simps)

lemma scale_factor_Suc2: "scale_factor (Suc (Suc 0)) = 1 / 2"
  using scale_factor_2 by (simp add: numeral_2_eq_2)

lemma scale_factor_0: "scale_factor 0 = 1"
  by (simp add: scale_factor_def)

lemmas nd_simps = stack_def reshape_def flat_index_def indices_def nd_get_def tensordot_def
  CHANGE_OF_BASIS_MAT_def fragment_tensor_def get_tensors_def change_basis_axis_def
  spec_fragment_tensor_def

lemma upt4: "[0..<4] = [0, 1, 2, 3]" "[0..<2] = [0, 1]" "[0..<1] = [0]"
  by (simp_all add: upt_rec)

lemma two_prepare_code_tensor:
  "get_tensors two_prepare_results [16] [[pnode 11 0, pnode 13 1]] [[]] =
     Inr [\<lparr>nd_shape = [4, 4], nd_data = [0, 1, 0, 0, 0, -1, 0, 0, 0, -1, 0, 0, 0, 1, 0, 0]\<rparr>]"
  by (simp add: nd_simps two_prepare_results_def scale_factor_Suc2 upt4 Let_def numeral_2_eq_2)

lemma two_prepare_spec_tensor:
  "spec_fragment_tensor two_prepare_results 2 0 =
     Inr \<lparr>nd_shape = [4, 4], nd_data = [0, 0, 0, 0, 1, -1, -1, 1, 0, 0, 0, 0, 0, 0, 0, 0]\<rparr>"
  by (simp add: nd_simps two_prepare_results_def scale_factor_Suc2 upt4 Let_def numeral_2_eq_2)

lemmas cg_simps = tensor_indices_def prep_symbols_def prep_symbol_def pred_pairs_def succ_pairs_def
  first_occurrences_def mnode_def pnode_def

lemma three_fragments_indices:
  "tensor_indices three_fragments three_fragments_prepare three_fragments_measure
     = Inr [[0, 1], [2], [0, 1, 2]]"
  by (simp add: cg_simps three_fragments_def three_fragments_prepare_def
        three_fragments_measure_def Let_def)

lemma three_fragments_mismatch:
  "\<not> cut_symbols_match three_fragments three_fragments_prepare three_fragments_measure
       [[0, 1], [2], [0, 1, 2]]"
  by (simp add: cut_symbols_match_def position_def three_fragments_def three_fragments_prepare_def
        three_fragments_measure_def mnode_def pnode_def)

lemma scale_factor_1_sq: "scale_factor (Suc 0) * scale_factor (Suc 0) = 1 / 2"
proof -
  have "scale_factor (Suc 0) * scale_factor (Suc 0) = 2 powr (- 1)"
    unfolding scale_factor_def by (simp add: powr_add[symmetric])
  also have "\<dots> = 1 / 2" by (simp add: powr_minus divide_simps)
  finally show ?thesis .
qed

lemma scale_factor_1_sq2: "scale_factor (Suc 0) * (2 * scale_factor (Suc 0)) = 1"
  using scale_factor_1_sq by simp

lemmas einsum_simps = einsum_def symbol_sizes_def contract_tensors_def contract_def

lemma ragged_tensors:
  "get_tensors ragged_results [4, 2] [[], [short_prepare]] [[mnode 10 0], []] =
     Inr [\<lparr>nd_shape = [4], nd_data = [scale_factor (Suc 0), 0, 0, scale_factor (Suc 0)]\<rparr>,
          \<lparr>nd_shape = [4], nd_data = [2 * scale_factor (Suc 0), 0, 0, 0]\<rparr>]"
  by (simp add: nd_simps ragged_results_def upt4 Let_def numeral_2_eq_2)

lemma ragged_indices:
  "tensor_indices two_fragments [[], [short_prepare]] [[mnode 10 0], []] = Inr [[0], [0]]"
  by (simp add: cg_simps two_fragments_def short_prepare_def Let_def)

lemma contract_passes_guard:
  "results \<noteq> [] \<Longrightarrow> length (hd results) \<le> 1 \<Longrightarrow>
     contract results shapes cg prepare_nodes measure_nodes =
       (case get_tensors results shapes prepare_nodes measure_nodes of
          Inl e \<Rightarrow> Inl e
        | Inr tensors \<Rightarrow> contract_tensors tensors cg prepare_nodes measure_nodes)"
  by (cases results) (simp_all add: contract_def)

lemma ragged_contract:
  "contract ragged_results [4, 2] two_fragments [[], [short_prepare]] [[mnode 10 0], []]
     = Inr \<lparr>nd_shape = [], nd_data = [1]\<rparr>"
proof -
  have "einsum [[0], [0]]
          [\<lparr>nd_shape = [4], nd_data = [scale_factor (Suc 0), 0, 0, scale_factor (Suc 0)]\<rparr>,
           \<lparr>nd_shape = [4], nd_data = [2 * scale_factor (Suc 0), 0, 0, 0]\<rparr>]
        = Inr \<lparr>nd_shape = [], nd_data = [1]\<rparr>"
    by (simp add: einsum_def symbol_sizes_def first_occurrences_def indices_def nd_get_def
          flat_index_def upt4 Let_def scale_factor_1_sq2)
  moreover have "ragged_results \<noteq> []" "length (hd ragged_results) \<le> 1"
    by (simp_all add: ragged_results_def)
  ultimately show ?thesis
    by (simp add: contract_passes_guard contract_tensors_def ragged_tensors ragged_indices)
qed

text \<open>
  C6. For a fragment with two prepare nodes the tensor of \<^verbatim>\<open>_get_tensors\<close> is not the one
  whose axis \<open>k\<close> indexes the \<open>k\<close>-th prepare node: each \<^verbatim>\<open>tensordot\<close> moves the new axis to
  the front, so the prepare axes come out reversed (here the transpose of the specified
  tensor). And the symbol strings of \<^verbatim>\<open>_contract_tensors\<close> follow the order of the edges of
  the communication graph, not that of the node lists: for the three fragments below the
  cut \<open>(12, 13)\<close> gets symbol 2 on its measure side and symbol 1 on its prepare side.
\<close>

theorem get_tensors_axes_and_symbols_out_of_order:
  "get_tensors two_prepare_results [16] [[pnode 11 0, pnode 13 1]] [[]] =
     Inr [\<lparr>nd_shape = [4, 4], nd_data = [0, 1, 0, 0, 0, -1, 0, 0, 0, -1, 0, 0, 0, 1, 0, 0]\<rparr>] \<and>
   spec_fragment_tensor two_prepare_results 2 0 =
     Inr \<lparr>nd_shape = [4, 4], nd_data = [0, 0, 0, 0, 1, -1, -1, 1, 0, 0, 0, 0, 0, 0, 0, 0]\<rparr> \<and>
   tensor_indices three_fragments three_fragments_prepare three_fragments_measure
     = Inr [[0, 1], [2], [0, 1, 2]] \<and>
   \<not> cut_symbols_match three_fragments three_fragments_prepare three_fragments_measure
       [[0, 1], [2], [0, 1, 2]]"
  using two_prepare_code_tensor two_prepare_spec_tensor three_fragments_indices
    three_fragments_mismatch
  by blast

text \<open>
  C8. \<^verbatim>\<open>contract\<close> looks at the length of the first result only. With results of lengths
  1, 1, 1, 1, 2, 2 (a second fragment whose two configurations return two values each) it
  raises nothing and returns a contracted value.
\<close>

theorem contract_accepts_longer_results:
  "map length ragged_results = [1, 1, 1, 1, 2, 2] \<and>
   contract ragged_results [4, 2] two_fragments [[], [short_prepare]] [[mnode 10 0], []]
     = Inr \<lparr>nd_shape = [], nd_data = [1]\<rparr>"
  using ragged_contract by (simp add: ragged_results_def)

subsection \<open>Fragments and lowering\<close>

lemma set_first_occurrences_aux:
  "set (foldl (\<lambda>acc x. if x \<in> set acc then acc else acc @ [x]) acc xs) = set acc \<union> set xs"
  by (induction xs arbitrary: acc) auto

lemma set_first_occurrences: "set (first_occurrences xs) = set xs"
  by (simp add: first_occurrences_def set_first_occurrences_aux)











lemmas graph_simps = fragment_graph_def edges_view_def out_edges_def in_edges_def node_ids_def
  first_occurrences_def is_measure_node_def is_prepare_node_def node_of_def remove_edge_def
  weakly_connected_components_def component_of_def expand_component_def neighbours_def
  subgraph_def has_node_def find_fragments_def gate_def mnode_def pnode_def expval_def pauli_def
  wire_cut_def


lemma map_result_lookup_same:
  "map_result (lookup_wire wm) ws = Inr nw \<Longrightarrow>
     (\<And>w. w \<in> set ws \<Longrightarrow> wm w = None \<or> wm w = Some w) \<Longrightarrow> nw = ws"
proof (induction ws arbitrary: nw)
  case Nil
  then show ?case by simp
next
  case (Cons w ws)
  from Cons.prems(1) obtain w' rest where
    w': "lookup_wire wm w = Inr w'" and rest: "map_result (lookup_wire wm) ws = Inr rest"
    and nw: "nw = w' # rest"
    by (auto split: sum.splits)
  from w' Cons.prems(2)[of w] have "w' = w"
    by (auto simp: lookup_wire_def split: option.splits)
  moreover from Cons.IH[OF rest] Cons.prems(2) have "rest = ws" by simp
  ultimately show ?case using nw by simp
qed

lemma node_wires_set_wires: "node_wires (set_wires (node_wires n) n) = node_wires n"
  by (cases n) (auto simp: set_wires_def m_wires_def split: option.splits)

lemma is_measure_op_set_wires: "is_measure_op (set_wires ws n) = is_measure_op n"
  by (cases n) (auto simp: set_wires_def)

lemma lower_loop_no_reuse:
  assumes "lower_loop ns (wires, wm) = Inr ns'"
    and "no_reuse ns ms"
    and "\<And>w. w \<notin> set ms \<Longrightarrow> wm w = None \<or> wm w = Some w"
  shows "ns' = map (\<lambda>n. set_wires (node_wires n) n) ns"
  using assms
proof (induction ns arbitrary: wires wm ms ns')
  case Nil
  then show ?case by simp
next
  case (Cons n ns)
  from Cons.prems(2) have fresh: "\<And>w. w \<in> set (node_wires n) \<Longrightarrow> w \<notin> set ms"
    and rest: "no_reuse ns (if is_measure_op n then ms @ take 1 (node_wires n) else ms)"
    by (auto simp: list_all_iff)
  from Cons.prems(1) obtain nw where nw: "map_result (lookup_wire wm) (node_wires n) = Inr nw"
    by (auto split: sum.splits)
  have nw_eq: "nw = node_wires n"
    using nw fresh Cons.prems(3) by (intro map_result_lookup_same[of wm]) auto
  let ?n' = "set_wires (node_wires n) n"
  show ?case
  proof (cases "is_measure_op n")
    case True
    with Cons.prems(1) nw nw_eq obtain mw ws' tl' where
      ws: "node_wires n = mw # ws'" and
      rec: "lower_loop ns (wires @ [find_new_wire wires], wm(mw \<mapsto> find_new_wire wires)) = Inr tl'" and
      res: "ns' = ?n' # tl'"
      by (auto simp: is_measure_op_set_wires node_wires_set_wires Let_def
               split: sum.splits list.splits)
    from rest True ws have nr: "no_reuse ns (ms @ [mw])" by simp
    have "tl' = map (\<lambda>n. set_wires (node_wires n) n) ns"
      using rec nr
    proof (rule Cons.IH)
      fix w assume "w \<notin> set (ms @ [mw])"
      then show "(wm(mw \<mapsto> find_new_wire wires)) w = None \<or>
                 (wm(mw \<mapsto> find_new_wire wires)) w = Some w"
        using Cons.prems(3)[of w] by auto
    qed
    with res show ?thesis by simp
  next
    case False
    with Cons.prems(1) nw nw_eq obtain tl' where
      rec: "lower_loop ns (wires, wm) = Inr tl'" and res: "ns' = ?n' # tl'"
      by (auto simp: is_measure_op_set_wires Let_def split: sum.splits)
    from rest False have nr: "no_reuse ns ms" by simp
    have "tl' = map (\<lambda>n. set_wires (node_wires n) n) ns"
      using rec nr Cons.prems(3) by (rule Cons.IH)
    with res show ?thesis by simp
  qed
qed

lemma node_operations_set_wires:
  "node_operations (map (\<lambda>n. set_wires (node_wires n) n) ns) = node_operations ns"
  by (induction ns rule: node_operations.induct) (auto simp: set_wires_def)

lemma identity_wire_map:
  "map_of (map (\<lambda>w. (w, w)) wires) w = None \<or> map_of (map (\<lambda>w. (w, w)) wires) w = Some w"
  by (induction wires) auto

text \<open>
  C9 (amended). When no node of the fragment acts on a wire that a measure node earlier in
  the order has measured, \<^verbatim>\<open>graph_to_tape\<close> leaves the wires of every node, and every
  operator object, as they were, and the operations of the tape are the operator nodes of
  the graph in their order. Nothing is stated of a fragment that uses a measured wire again.
\<close>

theorem graph_to_tape_keeps_unmeasured_wires:
  assumes "graph_to_tape g = Inr t" and "no_reuse (ordered_ops g) []"
  shows "\<exists>ns. lowered_nodes g = Inr ns \<and>
           map node_wires ns = map node_wires (ordered_ops g) \<and>
           node_operations ns = node_operations (ordered_ops g) \<and>
           operations t = node_operations (ordered_ops g)"
proof -
  from assms(1) obtain ns where ns: "lowered_nodes g = Inr ns"
    and t: "t = \<lparr>operations = node_operations ns, measurements = node_measurements ns\<rparr>"
    by (auto simp: graph_to_tape_def split: sum.splits)
  from ns have "ns = map (\<lambda>n. set_wires (node_wires n) n) (ordered_ops g)"
    unfolding lowered_nodes_def Let_def
    using assms(2) identity_wire_map by (rule lower_loop_no_reuse)
  then have "map node_wires ns = map node_wires (ordered_ops g)"
    "node_operations ns = node_operations (ordered_ops g)"
    by (simp_all add: node_wires_set_wires node_operations_set_wires comp_def)
  with ns t show ?thesis by simp
qed

lemmas lower_simps = graph_to_tape_def lowered_nodes_def ordered_ops_def all_wires_def
  lookup_wire_def set_wires_def find_new_wire_def m_wires_def gate_def mnode_def pnode_def
  expval_def pauli_def

lemma bridged_cut_ordered:
  "map node_wires (ordered_ops bridged_cut_fragment) = [[0, 1], [0], [0], [0, 1], [1]]"
  by (simp add: bridged_cut_fragment_def lower_simps)

lemma bridged_cut_lowered:
  "lowered_nodes bridged_cut_fragment =
     Inr [Op (gate 0 ''CNOT'' [0, 1]), Op (mnode 4 0), Op (pnode 5 2), Op (gate 2 ''CNOT'' [2, 1]),
          Meas ((expval 3 (Single (pauli PauliZ 1)))\<lparr>m_wires_attr := [1]\<rparr>)]"
  by (simp add: bridged_cut_fragment_def lower_simps)

lemma measured_fragment_tape:
  "graph_to_tape measured_fragment =
     Inr \<lparr>operations = [gate 0 ''Hadamard'' [0], mnode 6 0], measurements = []\<rparr>"
  by (simp add: measured_fragment_def lower_simps Let_def)

lemma measured_fragment_no_reuse: "no_reuse (ordered_ops measured_fragment) []"
  by (simp add: measured_fragment_def lower_simps)

lemmas lift_simps = tape_to_graph_def op_wire_step_def add_node_def add_edge_def empty_graph_def
  node_ids_def fresh_ident_def tape_idents_def m_wires_def gate_def wire_cut_def expval_def
  pauli_def mnode_def pnode_def






theorem graph_to_tape_keeps_unmeasured_wires_witness:
  "graph_to_tape measured_fragment =
     Inr \<lparr>operations = [gate 0 ''Hadamard'' [0], mnode 6 0], measurements = []\<rparr> \<and>
   no_reuse (ordered_ops measured_fragment) [] \<and>
   (\<exists>ns. lowered_nodes measured_fragment = Inr ns \<and>
      map node_wires ns = map node_wires (ordered_ops measured_fragment) \<and>
      node_operations ns = node_operations (ordered_ops measured_fragment) \<and>
      operations \<lparr>operations = [gate 0 ''Hadamard'' [0], mnode 6 0], measurements = []\<rparr>
        = node_operations (ordered_ops measured_fragment))"
  using graph_to_tape_keeps_unmeasured_wires[OF measured_fragment_tape measured_fragment_no_reuse]
    measured_fragment_tape measured_fragment_no_reuse
  by blast

text \<open>
  C9 (as stated) fails: in the fragment of \<^verbatim>\<open>CNOT(0, 1); WireCut(0); CNOT(0, 1)\<close> the measure
  node 4 measures wire 0, and lowering rewrites the wires of the prepare node 5 (the node of
  the communication-graph pair \<open>(4, 5)\<close>) from \<open>[0]\<close> to \<open>[2]\<close> and those of the second gate
  from \<open>[0, 1]\<close> to \<open>[2, 1]\<close>.
\<close>

theorem graph_to_tape_rewires_bridged_cut:
  "map node_wires (ordered_ops bridged_cut_fragment) = [[0, 1], [0], [0], [0, 1], [1]] \<and>
   lowered_nodes bridged_cut_fragment =
     Inr [Op (gate 0 ''CNOT'' [0, 1]), Op (mnode 4 0), Op (pnode 5 2), Op (gate 2 ''CNOT'' [2, 1]),
          Meas ((expval 3 (Single (pauli PauliZ 1)))\<lparr>m_wires_attr := [1]\<rparr>)] \<and>
   graph_to_tape bridged_cut_fragment =
     Inr \<lparr>operations = [gate 0 ''CNOT'' [0, 1], mnode 4 0, pnode 5 2, gate 2 ''CNOT'' [2, 1]],
          measurements = [(expval 3 (Single (pauli PauliZ 1)))\<lparr>m_wires_attr := [1]\<rparr>]\<rparr>"
  using bridged_cut_ordered bridged_cut_lowered
  by (simp add: graph_to_tape_def)

subsection \<open>The transform on a tape without cuts\<close>

lemma op_wire_steps_nodes:
  "g_nodes (fst (foldl (op_wire_step v) (g, l) ws)) = g_nodes g"
  by (induction ws arbitrary: g l) (auto simp: op_wire_step_def split: option.splits)

lemma node_ids_append: "node_ids (g\<lparr>g_nodes := g_nodes g @ [(n, k)]\<rparr>) = node_ids g @ [node_id n]"
  by (simp add: node_ids_def)

lemma ops_loop_nodes:
  assumes "distinct (map op_id xs)" and "set (map op_id xs) \<inter> set (node_ids g) = {}"
  shows "g_nodes (fst (ops_loop k xs (g, l))) =
           g_nodes g @ map (\<lambda>(i, x). (Op x, of_nat i)) (enumerate k xs)"
  using assms
proof (induction xs arbitrary: k g l)
  case Nil
  then show ?case by simp
next
  case (Cons x xs)
  let ?g1 = "add_node (Op x) (of_nat k) g"
  obtain g2 l2 where s: "foldl (op_wire_step (op_id x)) (?g1, l) (op_wires x) = (g2, l2)"
    by (cases "foldl (op_wire_step (op_id x)) (?g1, l) (op_wires x)")
  from Cons.prems(2) have nin: "op_id x \<notin> set (node_ids g)" by auto
  then have g1: "g_nodes ?g1 = g_nodes g @ [(Op x, of_nat k)]"
    by (simp add: add_node_def)
  have g2: "g_nodes g2 = g_nodes g @ [(Op x, of_nat k)]"
    using op_wire_steps_nodes[of "op_id x" ?g1 l "op_wires x"] s g1 by simp
  have "distinct (map op_id xs)" using Cons.prems(1) by simp
  moreover have "set (map op_id xs) \<inter> set (node_ids g2) = {}"
    using Cons.prems g2 by (auto simp: node_ids_def)
  ultimately have "g_nodes (fst (ops_loop (Suc k) xs (g2, l2))) =
           g_nodes g2 @ map (\<lambda>(i, x). (Op x, of_nat i)) (enumerate (Suc k) xs)"
    by (rule Cons.IH)
  with s g2 show ?case by simp
qed

lemma lifted_ops_ids:
  "map (node_id \<circ> fst) (map (\<lambda>(i, x). (Op x, of_nat i :: rat)) (enumerate k xs)) = map op_id xs"
  by (induction xs arbitrary: k) auto

lemma meas_edges_nodes:
  "meas_edges v latest ws g = Inr g' \<Longrightarrow> g_nodes g' = g_nodes g"
  by (induction ws arbitrary: g)
     (auto simp: add_edge_def split: sum.splits option.splits)

lemma tape_to_graph_nodes:
  assumes g: "tape_to_graph t = Inr g"
    and d: "distinct (tape_idents t)"
    and m: "measurements t = [m]" "m_obs m = Some (Single ob)"
  shows "g_nodes g = lifted_nodes (operations t) m"
proof -
  obtain g1 l1 where o: "ops_loop 0 (operations t) (empty_graph, Map.empty) = (g1, l1)"
    by (cases "ops_loop 0 (operations t) (empty_graph, Map.empty)")
  have "g_nodes (fst (ops_loop 0 (operations t) (empty_graph, Map.empty))) =
          g_nodes empty_graph @ map (\<lambda>(i, x). (Op x, of_nat i)) (enumerate 0 (operations t))"
    using d by (intro ops_loop_nodes) (auto simp: tape_idents_def empty_graph_def node_ids_def)
  with o have n1: "g_nodes g1 = map (\<lambda>(i, x). (Op x, of_nat i)) (enumerate 0 (operations t))"
    by (simp add: empty_graph_def)
  have ids: "node_ids g1 = map op_id (operations t)"
    unfolding node_ids_def n1 by (rule lifted_ops_ids)
  from d m have "m_id m \<notin> set (node_ids g1)"
    by (auto simp: tape_idents_def ids)
  then have a: "g_nodes (add_node (Meas m) (of_nat (length (operations t))) g1)
      = g_nodes g1 @ [(Meas m, of_nat (length (operations t)))]"
    by (simp add: add_node_def)
  from g o m obtain g' where
    "meas_edges (m_id m) l1 (m_wires m) (add_node (Meas m) (of_nat (length (operations t))) g1) = Inr g'"
    and "g = g'"
    by (auto simp: tape_to_graph_def split: if_splits sum.splits prod.splits)
  then show ?thesis
    using meas_edges_nodes a n1 by (simp add: lifted_nodes_def)
qed


lemma lifted_nodes_ids: "map (node_id \<circ> fst) (lifted_nodes xs m) = map op_id xs @ [m_id m]"
  unfolding lifted_nodes_def map_append lifted_ops_ids by simp

lemma lifted_nodes_fst: "map fst (lifted_nodes xs m) = map Op xs @ [Meas m]"
proof -
  have "map fst (map (\<lambda>(i, x). (Op x, of_nat i :: rat)) (enumerate k xs)) = map Op xs" for k
    by (induction xs arbitrary: k) auto
  then show ?thesis by (simp add: lifted_nodes_def)
qed

lemma lifted_nodes_snd: "map snd (lifted_nodes xs m) = map of_nat [0..<Suc (length xs)]"
proof -
  have "map snd (map (\<lambda>(i, x). (Op x, of_nat i :: rat)) ys) = map of_nat (map fst ys)"
    for ys :: "(nat \<times> operation) list"
    by (induction ys) auto
  from this[of "enumerate 0 xs"] show ?thesis
    by (simp add: lifted_nodes_def del: map_map)
qed

lemma lifted_nodes_sorted: "sorted (map snd (lifted_nodes xs m))"
  unfolding lifted_nodes_snd by (simp add: sorted_iff_nth_mono del: upt_Suc)

text \<open>Step 2: nothing to replace.\<close>

lemma remove_cuts_loop_none:
  "(\<And>x. Op x \<in> set ns \<Longrightarrow> \<not> is_WireCut (op_class x)) \<Longrightarrow> remove_cuts_loop ns g = Inr g"
  by (induction ns g rule: remove_cuts_loop.induct) auto

lemma gate_not_others:
  "is_Gate c \<Longrightarrow> \<not> is_WireCut c \<and> \<not> is_MeasureNode c \<and> \<not> is_PrepareNode c"
  by (cases c) auto

text \<open>Step 3: no cut edge.\<close>

lemma node_of_in_nodes: "node_of g i = Some n \<Longrightarrow> n \<in> fst ` set (g_nodes g)"
  by (auto simp: node_of_def find_Some_iff image_iff) (metis fst_conv nth_mem)

lemma remove_cut_edges_none:
  "(\<And>i. \<not> is_measure_node g i) \<Longrightarrow> remove_cut_edges es (cuts, g) = Inr (cuts, g)"
  by (induction es) auto

text \<open>Step 4: the components cover the nodes.\<close>

lemma expand_component_keeps: "set vs \<subseteq> set (expand_component es vs)"
  by (auto simp: expand_component_def set_first_occurrences)

lemma funpow_expand_keeps: "set vs \<subseteq> set (((expand_component es) ^^ k) vs)"
proof (induction k)
  case 0
  then show ?case by simp
next
  case (Suc k)
  then show ?case using expand_component_keeps[where vs = "((expand_component es) ^^ k) vs" and es = es] by auto
qed

lemma seed_in_component: "v \<in> set (component_of g v)"
  using funpow_expand_keeps[where vs = "[v]" and es = "g_edges g" and k = "length (g_nodes g)"]
  by (simp add: component_of_def)

lemma components_loop_cover:
  "v \<in> set vs \<Longrightarrow> v \<in> set seen \<or> (\<exists>c \<in> set (components_loop g vs seen). v \<in> set c)"
proof (induction vs arbitrary: seen)
  case Nil
  then show ?case by simp
next
  case (Cons a vs)
  show ?case
  proof (cases "v = a")
    case True
    then show ?thesis using seed_in_component[of a g] by auto
  next
    case False
    with Cons.prems have v: "v \<in> set vs" by simp
    show ?thesis
    proof (cases "a \<in> set seen")
      case True
      with Cons.IH[OF v, of seen] show ?thesis by auto
    next
      case False
      with Cons.IH[OF v, of "seen @ component_of g a"] show ?thesis by auto
    qed
  qed
qed

lemma single_component_covers:
  assumes "weakly_connected_components g = [c]"
  shows "g_nodes (subgraph g c) = g_nodes g"
proof -
  have "node_id n \<in> set c" if "(n, k) \<in> set (g_nodes g)" for n k
  proof -
    from that have "node_id n \<in> set (node_ids g)" by (force simp: node_ids_def)
    from components_loop_cover[OF this, of "[]" g] assms show ?thesis
      by (simp add: weakly_connected_components_def)
  qed
  then show ?thesis by (auto simp: subgraph_def intro!: filter_True)
qed

text \<open>Step 5: lowering a fragment without measure nodes.\<close>

lemma map_result_lookup_total:
  "(\<And>w. w \<in> set ws \<Longrightarrow> wm w = Some w) \<Longrightarrow> map_result (lookup_wire wm) ws = Inr ws"
  by (induction ws) (auto simp: lookup_wire_def)

lemma lower_loop_plain:
  assumes "\<And>n. n \<in> set ns \<Longrightarrow> \<not> is_measure_op n"
    and "\<And>n w. n \<in> set ns \<Longrightarrow> w \<in> set (node_wires n) \<Longrightarrow> wm w = Some w"
  shows "lower_loop ns (wires, wm) = Inr (map (\<lambda>n. set_wires (node_wires n) n) ns)"
  using assms
proof (induction ns)
  case Nil
  then show ?case by simp
next
  case (Cons n ns)
  have a: "map_result (lookup_wire wm) (node_wires n) = Inr (node_wires n)"
    using Cons.prems(2)[of n] by (intro map_result_lookup_total) auto
  have b: "\<not> is_measure_op (set_wires (node_wires n) n)"
    using Cons.prems(1)[of n] by (simp add: is_measure_op_set_wires)
  have "lower_loop ns (wires, wm) = Inr (map (\<lambda>n. set_wires (node_wires n) n) ns)"
    using Cons.prems by (intro Cons.IH) auto
  with a b show ?case by (simp add: Let_def)
qed

lemma set_all_wires: "set (all_wires wss) = (\<Union>ws \<in> set wss. set ws)"
  by (simp add: all_wires_def set_first_occurrences_aux)

lemma identity_wire_map_Some:
  "w \<in> set wires \<Longrightarrow> map_of (map (\<lambda>w. (w, w)) wires) w = Some w"
  by (induction wires) auto

lemma lowered_nodes_plain:
  assumes "\<And>n. n \<in> fst ` set (g_nodes g) \<Longrightarrow> \<not> is_measure_op n"
  shows "lowered_nodes g = Inr (map (\<lambda>n. set_wires (node_wires n) n) (ordered_ops g))"
proof -
  have s: "set (ordered_ops g) = fst ` set (g_nodes g)"
    by (simp add: ordered_ops_def)
  show ?thesis
    unfolding lowered_nodes_def Let_def
  proof (rule lower_loop_plain)
    fix n assume "n \<in> set (ordered_ops g)"
    with s assms show "\<not> is_measure_op n" by blast
  next
    fix n w assume n: "n \<in> set (ordered_ops g)" and w: "w \<in> set (node_wires n)"
    from n s obtain k where "(n, k) \<in> set (g_nodes g)" by auto
    with w have "w \<in> set (all_wires (map (\<lambda>(n, ord). node_wires n) (g_nodes g)))"
      by (force simp: set_all_wires)
    then show "map_of (map (\<lambda>w. (w, w)) (all_wires (map (\<lambda>(n, ord). node_wires n) (g_nodes g)))) w
                 = Some w"
      by (rule identity_wire_map_Some)
  qed
qed

lemma node_operations_lifted: "node_operations (map Op xs @ [Meas m]) = xs"
  by (induction xs) auto

lemma node_measurements_lifted: "node_measurements (map Op xs @ [Meas m]) = [m]"
  by (induction xs) auto

lemma graph_to_tape_lifted:
  assumes n: "g_nodes f = lifted_nodes xs m" and gates: "list_all (\<lambda>x. is_Gate (op_class x)) xs"
  shows "graph_to_tape f =
           Inr \<lparr>operations = xs, measurements = [m\<lparr>m_wires_attr := m_wires m\<rparr>]\<rparr>"
proof -
  have o: "ordered_ops f = map Op xs @ [Meas m]"
    unfolding ordered_ops_def n
    by (simp add: sort_key_id_if_sorted[OF lifted_nodes_sorted] lifted_nodes_fst)
  have "\<not> is_measure_op k" if "k \<in> fst ` set (g_nodes f)" for k
  proof -
    from that have "k \<in> set (map fst (lifted_nodes xs m))" by (simp add: n)
    then have "k \<in> Op ` set xs \<or> k = Meas m" by (auto simp: lifted_nodes_fst)
    then show ?thesis
      using gates gate_not_others by (auto simp: list_all_iff)
  qed
  then have "lowered_nodes f = Inr (map (\<lambda>n. set_wires (node_wires n) n) (ordered_ops f))"
    by (rule lowered_nodes_plain)
  moreover have "map (\<lambda>n. set_wires (node_wires n) n) (map Op xs @ [Meas m])
      = map Op xs @ [Meas (m\<lparr>m_wires_attr := m_wires m\<rparr>)]"
    by (induction xs) (simp_all add: set_wires_def)
  ultimately have "lowered_nodes f = Inr (map Op xs @ [Meas (m\<lparr>m_wires_attr := m_wires m\<rparr>)])"
    unfolding o by simp
  then show ?thesis
    unfolding graph_to_tape_def
    by (simp only: sum.case node_operations_lifted node_measurements_lifted)
qed

text \<open>Step 6: one configuration.\<close>

lemma record_ops_gates:
  "list_all (\<lambda>x. is_Gate (op_class x)) xs \<Longrightarrow>
     record_ops pm xs (q, ms, n) = Inr (q @ xs, ms, n)"
  by (induction xs arbitrary: q) (auto dest: gate_not_others)

lemma filter_gates:
  assumes "list_all (\<lambda>x. is_Gate (op_class x)) xs"
  shows "filter (\<lambda>x. is_PrepareNode (op_class x)) xs = []"
    "filter (\<lambda>x. is_MeasureNode (op_class x)) xs = []"
  using assms gate_not_others by (auto simp: list_all_iff filter_empty_conv)

lemma expand_uncut_tape:
  assumes gates: "list_all (\<lambda>x. is_Gate (op_class x)) xs"
    and m: "return_type m = Expectation" "m_obs m = Some (Single ob)"
      "obs_class ob \<in> set [Identity, PauliX, PauliY, PauliZ]" "obs_wires ob \<noteq> []"
  shows "expand_fragment_tapes \<lparr>operations = xs, measurements = [m]\<rparr> =
      Inr ([\<lparr>operations = xs,
             measurements = [expval (fresh_ident (map op_id xs @ [m_id m])) (Tensor [ob])]\<rparr>], [], [])"
proof -
  from m(4) obtain w ws where w: "obs_wires ob = w # ws" by (cases "obs_wires ob") auto
  have u: "user_observable [] m = Inr (Tensor [ob])"
    using m w by (simp add: user_observable_def full_tensor_def first_wire_def py_sorted_def)
  show ?thesis
    using u
    by (simp add: expand_fragment_tapes_def prepare_nodes_of_def measure_nodes_of_def
          filter_gates[OF gates] terms_product_def config_tape_def record_ops_gates[OF gates]
          tape_idents_def)
qed

text \<open>Step 8: the post-processing of a single fragment without cuts.\<close>

lemma postprocess_single:
  "postprocess ([1], \<lparr>cg_nodes = [0], cg_edges = []\<rparr>, [[]], [[]]) [[r]]
     = Inr \<lparr>nd_shape = [], nd_data = [r]\<rparr>"
proof -
  have t: "get_tensors [[r]] [Suc 0] [[]] [[]] = Inr [\<lparr>nd_shape = [], nd_data = [r]\<rparr>]"
    by (simp add: get_tensors_def fragment_tensor_def stack_def reshape_def scale_factor_0)
  have i: "tensor_indices \<lparr>cg_nodes = [0], cg_edges = []\<rparr> [[]] [[]] = Inr [[]]"
    by (simp add: tensor_indices_def prep_symbols_def pred_pairs_def succ_pairs_def
          first_occurrences_def Let_def)
  have e: "einsum [[]] [\<lparr>nd_shape = [], nd_data = [r]\<rparr>] = Inr \<lparr>nd_shape = [], nd_data = [r]\<rparr>"
    by (simp add: einsum_def symbol_sizes_def first_occurrences_def indices_def nd_get_def
          flat_index_def Let_def)
  show ?thesis
    by (simp add: postprocess_def contract_def t contract_tensors_def i e)
qed

text \<open>
  C2 (amended). Let a tape have at least one operation, gates only (no cut and no
  placeholder node), objects of different identities, and one measurement, the expectation
  value of a single Pauli on a wire; let its graph be weakly connected. Then \<^verbatim>\<open>cut_circuit\<close>
  returns exactly one configuration tape, with the operations of the input and the
  expectation value of the same Pauli (as a tensor of one factor), and the post-processing
  function returns the single scalar result unchanged.
\<close>

theorem cut_circuit_without_cuts:
  assumes g: "tape_to_graph t = Inr g"
    and conn: "length (weakly_connected_components g) = 1"
    and gates: "list_all (\<lambda>x. is_Gate (op_class x)) (operations t)"
    and d: "distinct (tape_idents t)"
    and m: "measurements t = [m]" "return_type m = Expectation" "m_obs m = Some (Single ob)"
      "obs_class ob \<in> set [Identity, PauliX, PauliY, PauliZ]" "obs_wires ob \<noteq> []"
  shows "\<exists>nid. cut_circuit t =
            Inr ([\<lparr>operations = operations t, measurements = [expval nid (Tensor [ob])]\<rparr>],
                 ([1], \<lparr>cg_nodes = [0], cg_edges = []\<rparr>, [[]], [[]])) \<and>
          (\<forall>r. postprocess ([1], \<lparr>cg_nodes = [0], cg_edges = []\<rparr>, [[]], [[]]) [[r]]
                = Inr \<lparr>nd_shape = [], nd_data = [r]\<rparr>)"
proof -
  let ?m' = "m\<lparr>m_wires_attr := m_wires m\<rparr>"
  have n: "g_nodes g = lifted_nodes (operations t) m"
    using g d m(1) m(3) by (rule tape_to_graph_nodes)
  have ops: "x \<in> set (operations t)" if "Op x \<in> fst ` set (g_nodes g)" for x
  proof -
    from that have "Op x \<in> set (map fst (lifted_nodes (operations t) m))" by (simp add: n)
    then show ?thesis by (auto simp: lifted_nodes_fst)
  qed
  have g_gate: "is_Gate (op_class x)" if "Op x \<in> fst ` set (g_nodes g)" for x
    using ops[OF that] gates by (simp add: list_all_iff)
  have rw: "remove_wire_cut_nodes g = Inr g"
    unfolding remove_wire_cut_nodes_def
    by (rule remove_cuts_loop_none) (use g_gate gate_not_others in auto)
  have nm: "\<not> is_measure_node g i" for i
  proof (cases "node_of g i")
    case None
    then show ?thesis by (simp add: is_measure_node_def)
  next
    case (Some k)
    show ?thesis
    proof (cases k)
      case (Op x)
      with Some node_of_in_nodes have "Op x \<in> fst ` set (g_nodes g)" by blast
      from g_gate[OF this] gate_not_others Some Op show ?thesis
        by (auto simp: is_measure_node_def)
    next
      case (Meas k')
      with Some show ?thesis by (simp add: is_measure_node_def)
    qed
  qed
  from conn obtain c where c: "weakly_connected_components g = [c]"
    by (cases "weakly_connected_components g") auto
  have fg: "fragment_graph g = Inr ([subgraph g c], \<lparr>cg_nodes = [0], cg_edges = []\<rparr>)"
    by (simp add: fragment_graph_def remove_cut_edges_none[OF nm] c)
  have "g_nodes (subgraph g c) = lifted_nodes (operations t) m"
    using single_component_covers[OF c] n by simp
  then have gt: "graph_to_tape (subgraph g c) =
      Inr \<lparr>operations = operations t, measurements = [?m']\<rparr>"
    using gates by (rule graph_to_tape_lifted)
  have ex: "expand_fragment_tapes \<lparr>operations = operations t, measurements = [?m']\<rparr> =
      Inr ([\<lparr>operations = operations t,
             measurements = [expval (fresh_ident (map op_id (operations t) @ [m_id ?m']))
                                    (Tensor [ob])]\<rparr>], [], [])"
    using gates m(2-5) by (intro expand_uncut_tape) simp_all
  have "cut_circuit t =
      Inr ([\<lparr>operations = operations t,
             measurements = [expval (fresh_ident (map op_id (operations t) @ [m_id ?m']))
                                    (Tensor [ob])]\<rparr>],
           ([1], \<lparr>cg_nodes = [0], cg_edges = []\<rparr>, [[]], [[]]))"
    by (simp add: cut_circuit_def g rw fg gt ex)
  then show ?thesis using postprocess_single by blast
qed

lemma bell_tape_lift: "tape_to_graph bell_tape = Inr bell_graph"
  by (simp add: bell_tape_def bell_graph_def lift_simps)

lemma bell_graph_connected: "length (weakly_connected_components bell_graph) = 1"
  by (simp add: bell_graph_def graph_simps numeral_eq_Suc)

theorem cut_circuit_without_cuts_witness:
  "tape_to_graph bell_tape = Inr bell_graph \<and>
   length (weakly_connected_components bell_graph) = 1 \<and>
   list_all (\<lambda>x. is_Gate (op_class x)) (operations bell_tape) \<and>
   distinct (tape_idents bell_tape) \<and>
   measurements bell_tape = [expval 2 (Single (pauli PauliZ 1))] \<and>
   (\<exists>nid. cut_circuit bell_tape =
            Inr ([\<lparr>operations = operations bell_tape,
                   measurements = [expval nid (Tensor [pauli PauliZ 1])]\<rparr>],
                 ([1], \<lparr>cg_nodes = [0], cg_edges = []\<rparr>, [[]], [[]])) \<and>
          (\<forall>r. postprocess ([1], \<lparr>cg_nodes = [0], cg_edges = []\<rparr>, [[]], [[]]) [[r]]
                = Inr \<lparr>nd_shape = [], nd_data = [r]\<rparr>))"
proof -
  have a: "list_all (\<lambda>x. is_Gate (op_class x)) (operations bell_tape)"
    and b: "distinct (tape_idents bell_tape)"
    and c: "measurements bell_tape = [expval 2 (Single (pauli PauliZ 1))]"
    by (simp_all add: bell_tape_def gate_def tape_idents_def expval_def)
  have d: "return_type (expval 2 (Single (pauli PauliZ 1))) = Expectation"
    "m_obs (expval 2 (Single (pauli PauliZ 1))) = Some (Single (pauli PauliZ 1))"
    "obs_class (pauli PauliZ 1) \<in> set [Identity, PauliX, PauliY, PauliZ]"
    "obs_wires (pauli PauliZ 1) \<noteq> []"
    by (simp_all add: expval_def pauli_def)
  from cut_circuit_without_cuts[OF bell_tape_lift bell_graph_connected a b c d]
    bell_tape_lift bell_graph_connected a b c
  show ?thesis by blast
qed

text \<open>
  C2 (as stated) fails: \<^verbatim>\<open>Hadamard(0); PauliX(1); expval(PauliZ(0))\<close> has no cut, its graph
  has two components, and \<^verbatim>\<open>cut_circuit\<close> returns two configuration tapes, one for each wire.
\<close>

theorem cut_circuit_disconnected_two_tapes:
  "list_all (\<lambda>x. \<not> is_WireCut (op_class x)) (operations disconnected_tape) \<and>
   cut_circuit disconnected_tape =
     Inr ([\<lparr>operations = [gate 0 ''Hadamard'' [0]],
            measurements = [expval 3 (Tensor [pauli PauliZ 0])]\<rparr>,
           \<lparr>operations = [gate 1 ''PauliX'' [1]],
            measurements = [expval 2 (Single (pauli Identity 1))]\<rparr>],
          ([1, 1], \<lparr>cg_nodes = [0, 1], cg_edges = []\<rparr>, [[], []], [[], []]))"
  by code_simp

subsection \<open>The transform on tapes with cuts\<close>

lemma sum_Inr_cases:
  assumes "map_sum id f x = Inr y"
  shows "\<exists>z. x = Inr z \<and> f z = y"
  using assms by (cases x) auto

lemma cnot_cut_pipeline:
  "\<exists>tapes. cut_circuit cnot_cut_tape =
      Inr (tapes, ([4, 4], \<lparr>cg_nodes = [0, 1], cg_edges = [(0, 1, 6, 7)]\<rparr>,
                   [[], [pnode 7 0]], [[mnode 6 0], []])) \<and>
     map (\<lambda>tp. length (measurements tp)) tapes = [1, 1, 1, 1, 2, 2, 2, 2]"
proof -
  have "map_sum id (\<lambda>(tapes, pp). (map (\<lambda>tp. length (measurements tp)) tapes, pp))
          (cut_circuit cnot_cut_tape) =
        Inr ([1, 1, 1, 1, 2, 2, 2, 2],
             ([4, 4], \<lparr>cg_nodes = [0, 1], cg_edges = [(0, 1, 6, 7)]\<rparr>,
              [[], [pnode 7 0]], [[mnode 6 0], []]))"
    by code_simp
  from sum_Inr_cases[OF this] show ?thesis by auto
qed

lemma cnot_cut_contract:
  "postprocess ([4, 4], \<lparr>cg_nodes = [0, 1], cg_edges = [(0, 1, 6, 7)]\<rparr>,
                [[], [pnode 7 0]], [[mnode 6 0], []])
     [[a0], [a1], [a2], [a3], [b0, c0], [b1, c1], [b2, c2], [b3, c3]]
   = Inl (ValueError ''cannot reshape array'')"
  by (simp add: postprocess_def contract_def get_tensors_def fragment_tensor_def stack_def
        reshape_def)

lemma two_cuts_pipeline:
  "\<exists>tapes. cut_circuit two_cuts_tape =
      Inr (tapes, ([4, 4, 16],
                   \<lparr>cg_nodes = [0, 1, 2], cg_edges = [(0, 2, 6, 7), (1, 2, 8, 9)]\<rparr>,
                   [[], [], [pnode 7 0, pnode 9 1]], [[mnode 6 0], [mnode 8 1], []])) \<and>
     map tape_summary tapes =
       map (\<lambda>c. ([(Gate ''PauliX'', [0])], [Some (Tensor [pauli c 0])])) MEASURE_SETTINGS @
       map (\<lambda>c. ([(Gate ''Identity'', [1])], [Some (Tensor [pauli c 1])])) MEASURE_SETTINGS @
       map (\<lambda>(p, q). (map (\<lambda>g. (Gate g, [0])) p @ map (\<lambda>g. (Gate g, [1])) q @
                        [(Gate ''CNOT'', [0, 1])],
                       [Some (Tensor [pauli PauliZ 0])]))
           (List.product PREPARE_SETTINGS PREPARE_SETTINGS)"
proof -
  have "map_sum id (\<lambda>(tapes, pp). (map tape_summary tapes, pp)) (cut_circuit two_cuts_tape) =
        Inr (map (\<lambda>c. ([(Gate ''PauliX'', [0])], [Some (Tensor [pauli c 0])])) MEASURE_SETTINGS @
             map (\<lambda>c. ([(Gate ''Identity'', [1])], [Some (Tensor [pauli c 1])])) MEASURE_SETTINGS @
             map (\<lambda>(p, q). (map (\<lambda>g. (Gate g, [0])) p @ map (\<lambda>g. (Gate g, [1])) q @
                              [(Gate ''CNOT'', [0, 1])],
                             [Some (Tensor [pauli PauliZ 0])]))
                 (List.product PREPARE_SETTINGS PREPARE_SETTINGS),
             ([4, 4, 16],
              \<lparr>cg_nodes = [0, 1, 2], cg_edges = [(0, 2, 6, 7), (1, 2, 8, 9)]\<rparr>,
              [[], [], [pnode 7 0, pnode 9 1]], [[mnode 6 0], [mnode 8 1], []]))"
    by code_simp
  from sum_Inr_cases[OF this] show ?thesis by auto
qed

lemma two_cuts_tensors:
  "get_tensors two_cuts_results [4, 4, 16] [[], [], [pnode 7 0, pnode 9 1]]
       [[mnode 6 0], [mnode 8 1], []] =
     Inr [\<lparr>nd_shape = [4], nd_data = [scale_factor (Suc 0), 0, 0, - scale_factor (Suc 0)]\<rparr>,
          \<lparr>nd_shape = [4], nd_data = [scale_factor (Suc 0), 0, 0, scale_factor (Suc 0)]\<rparr>,
          \<lparr>nd_shape = [4, 4],
             nd_data = [0, 0, 0, 2, 0, 0, 0, 0, 0, 0, 0, 0, 0, 0, 0, 0]\<rparr>]"
  by (simp add: nd_simps two_cuts_results_def upt4 Let_def numeral_2_eq_2 scale_factor_Suc2)

lemma two_cuts_indices:
  "tensor_indices \<lparr>cg_nodes = [0, 1, 2], cg_edges = [(0, 2, 6, 7), (1, 2, 8, 9)]\<rparr>
       [[], [], [pnode 7 0, pnode 9 1]] [[mnode 6 0], [mnode 8 1], []] = Inr [[0], [1], [0, 1]]"
  by (simp add: cg_simps Let_def)

lemma scale_factor_1_sq3: "scale_factor (Suc 0) * (scale_factor (Suc 0) * 2) = 1"
  using scale_factor_1_sq by simp

lemma two_cuts_einsum:
  "einsum [[0], [1], [0, 1]]
     [\<lparr>nd_shape = [4], nd_data = [scale_factor (Suc 0), 0, 0, - scale_factor (Suc 0)]\<rparr>,
      \<lparr>nd_shape = [4], nd_data = [scale_factor (Suc 0), 0, 0, scale_factor (Suc 0)]\<rparr>,
      \<lparr>nd_shape = [4, 4], nd_data = [0, 0, 0, 2, 0, 0, 0, 0, 0, 0, 0, 0, 0, 0, 0, 0]\<rparr>]
   = Inr \<lparr>nd_shape = [], nd_data = [1]\<rparr>"
  by (simp add: einsum_def symbol_sizes_def first_occurrences_def indices_def nd_get_def
        flat_index_def upt4 Let_def scale_factor_1_sq3)

text \<open>
  C1. Two tapes with cuts on which the pipeline does not give the expectation value.
  For \<^verbatim>\<open>Hadamard(0); WireCut(0); CNOT(0, 1); expval(PauliZ(0) @ PauliZ(1))\<close> the tensor
  product is split at lifting and never put together again: the configuration tapes of the
  second fragment hold two expectation values each, and whatever the values of the results
  are, \<^verbatim>\<open>contract\<close> raises. For
  \<^verbatim>\<open>PauliX(0); Identity(1); WireCut(0); WireCut(1); CNOT(0, 1); expval(PauliZ(0))\<close> the
  expectation value is \<open>-1\<close>, and the pipeline, given the exact expectation values of its 24
  configuration tapes, returns \<open>1\<close>: the two prepare axes of the third fragment are
  reversed, so each cut is joined to the prepare node of the other.
\<close>

theorem cut_circuit_not_the_expectation_value:
  "(\<exists>tapes pp. cut_circuit cnot_cut_tape = Inr (tapes, pp) \<and>
      map (\<lambda>tp. length (measurements tp)) tapes = [1, 1, 1, 1, 2, 2, 2, 2] \<and>
      (\<forall>a0 a1 a2 a3 b0 c0 b1 c1 b2 c2 b3 c3.
         postprocess pp [[a0], [a1], [a2], [a3], [b0, c0], [b1, c1], [b2, c2], [b3, c3]]
           = Inl (ValueError ''cannot reshape array''))) \<and>
   (\<exists>tapes pp. cut_circuit two_cuts_tape = Inr (tapes, pp) \<and>
      map tape_summary tapes =
        map (\<lambda>c. ([(Gate ''PauliX'', [0])], [Some (Tensor [pauli c 0])])) MEASURE_SETTINGS @
        map (\<lambda>c. ([(Gate ''Identity'', [1])], [Some (Tensor [pauli c 1])])) MEASURE_SETTINGS @
        map (\<lambda>(p, q). (map (\<lambda>g. (Gate g, [0])) p @ map (\<lambda>g. (Gate g, [1])) q @
                         [(Gate ''CNOT'', [0, 1])],
                        [Some (Tensor [pauli PauliZ 0])]))
            (List.product PREPARE_SETTINGS PREPARE_SETTINGS) \<and>
      postprocess pp two_cuts_results = Inr \<lparr>nd_shape = [], nd_data = [1]\<rparr>)"
proof (rule conjI)
  from cnot_cut_pipeline obtain tapes where
    a: "cut_circuit cnot_cut_tape =
      Inr (tapes, ([4, 4], \<lparr>cg_nodes = [0, 1], cg_edges = [(0, 1, 6, 7)]\<rparr>,
                   [[], [pnode 7 0]], [[mnode 6 0], []]))" and
    b: "map (\<lambda>tp. length (measurements tp)) tapes = [1, 1, 1, 1, 2, 2, 2, 2]"
    by (elim exE conjE)
  show "\<exists>tapes pp. cut_circuit cnot_cut_tape = Inr (tapes, pp) \<and>
      map (\<lambda>tp. length (measurements tp)) tapes = [1, 1, 1, 1, 2, 2, 2, 2] \<and>
      (\<forall>a0 a1 a2 a3 b0 c0 b1 c1 b2 c2 b3 c3.
         postprocess pp [[a0], [a1], [a2], [a3], [b0, c0], [b1, c1], [b2, c2], [b3, c3]]
           = Inl (ValueError ''cannot reshape array''))"
  proof (intro exI conjI allI)
    show "cut_circuit cnot_cut_tape =
      Inr (tapes, ([4, 4], \<lparr>cg_nodes = [0, 1], cg_edges = [(0, 1, 6, 7)]\<rparr>,
                   [[], [pnode 7 0]], [[mnode 6 0], []]))"
      by (rule a)
    show "map (\<lambda>tp. length (measurements tp)) tapes = [1, 1, 1, 1, 2, 2, 2, 2]"
      by (rule b)
    show "postprocess ([4, 4], \<lparr>cg_nodes = [0, 1], cg_edges = [(0, 1, 6, 7)]\<rparr>,
                   [[], [pnode 7 0]], [[mnode 6 0], []])
           [[a0], [a1], [a2], [a3], [b0, c0], [b1, c1], [b2, c2], [b3, c3]]
           = Inl (ValueError ''cannot reshape array'')"
      for a0 a1 a2 a3 b0 c0 b1 c1 b2 c2 b3 c3
      by (rule cnot_cut_contract)
  qed
next
  have ne: "two_cuts_results \<noteq> []" "length (hd two_cuts_results) \<le> 1"
    by (simp_all add: two_cuts_results_def)
  have c: "postprocess ([4, 4, 16],
                   \<lparr>cg_nodes = [0, 1, 2], cg_edges = [(0, 2, 6, 7), (1, 2, 8, 9)]\<rparr>,
                   [[], [], [pnode 7 0, pnode 9 1]], [[mnode 6 0], [mnode 8 1], []])
          two_cuts_results = Inr \<lparr>nd_shape = [], nd_data = [1]\<rparr>"
    by (simp only: postprocess_def prod.case contract_passes_guard[OF ne] two_cuts_tensors
          sum.case contract_tensors_def two_cuts_indices two_cuts_einsum)
  from two_cuts_pipeline obtain tapes where
    a: "cut_circuit two_cuts_tape =
      Inr (tapes, ([4, 4, 16],
                   \<lparr>cg_nodes = [0, 1, 2], cg_edges = [(0, 2, 6, 7), (1, 2, 8, 9)]\<rparr>,
                   [[], [], [pnode 7 0, pnode 9 1]], [[mnode 6 0], [mnode 8 1], []]))" and
    b: "map tape_summary tapes =
       map (\<lambda>c. ([(Gate ''PauliX'', [0])], [Some (Tensor [pauli c 0])])) MEASURE_SETTINGS @
       map (\<lambda>c. ([(Gate ''Identity'', [1])], [Some (Tensor [pauli c 1])])) MEASURE_SETTINGS @
       map (\<lambda>(p, q). (map (\<lambda>g. (Gate g, [0])) p @ map (\<lambda>g. (Gate g, [1])) q @
                        [(Gate ''CNOT'', [0, 1])],
                       [Some (Tensor [pauli PauliZ 0])]))
           (List.product PREPARE_SETTINGS PREPARE_SETTINGS)"
    by (elim exE conjE)
  show "\<exists>tapes pp. cut_circuit two_cuts_tape = Inr (tapes, pp) \<and>
      map tape_summary tapes =
        map (\<lambda>c. ([(Gate ''PauliX'', [0])], [Some (Tensor [pauli c 0])])) MEASURE_SETTINGS @
        map (\<lambda>c. ([(Gate ''Identity'', [1])], [Some (Tensor [pauli c 1])])) MEASURE_SETTINGS @
        map (\<lambda>(p, q). (map (\<lambda>g. (Gate g, [0])) p @ map (\<lambda>g. (Gate g, [1])) q @
                         [(Gate ''CNOT'', [0, 1])],
                        [Some (Tensor [pauli PauliZ 0])]))
            (List.product PREPARE_SETTINGS PREPARE_SETTINGS) \<and>
      postprocess pp two_cuts_results = Inr \<lparr>nd_shape = [], nd_data = [1]\<rparr>"
  proof (intro exI conjI)
    show "cut_circuit two_cuts_tape =
      Inr (tapes, ([4, 4, 16],
                   \<lparr>cg_nodes = [0, 1, 2], cg_edges = [(0, 2, 6, 7), (1, 2, 8, 9)]\<rparr>,
                   [[], [], [pnode 7 0, pnode 9 1]], [[mnode 6 0], [mnode 8 1], []]))"
      by (rule a)
    show "map tape_summary tapes =
       map (\<lambda>c. ([(Gate ''PauliX'', [0])], [Some (Tensor [pauli c 0])])) MEASURE_SETTINGS @
       map (\<lambda>c. ([(Gate ''Identity'', [1])], [Some (Tensor [pauli c 1])])) MEASURE_SETTINGS @
       map (\<lambda>(p, q). (map (\<lambda>g. (Gate g, [0])) p @ map (\<lambda>g. (Gate g, [1])) q @
                        [(Gate ''CNOT'', [0, 1])],
                       [Some (Tensor [pauli PauliZ 0])]))
           (List.product PREPARE_SETTINGS PREPARE_SETTINGS)"
      by (rule b)
    show "postprocess ([4, 4, 16],
                   \<lparr>cg_nodes = [0, 1, 2], cg_edges = [(0, 2, 6, 7), (1, 2, 8, 9)]\<rparr>,
                   [[], [], [pnode 7 0, pnode 9 1]], [[mnode 6 0], [mnode 8 1], []])
          two_cuts_results = Inr \<lparr>nd_shape = [], nd_data = [1]\<rparr>"
      by (rule c)
  qed
qed

end
